theory Spec2Isabelle
  imports Main "HOL-Library.Word" "HOL-Library.Sublist" "HOL-Library.AList"
begin

section \<open>Values of the Go standard library used by the program\<close>

subsection \<open>time.Time\<close>

text \<open>
  A \<open>time.Time\<close> is modelled by the wall-clock instant it denotes: the number of
  nanoseconds since January 1, year 1, 00:00:00 UTC. This is what \<open>IsZero\<close>,
  \<open>Before\<close> and \<open>After\<close> read for times that carry no monotonic clock reading
  (every time decoded from a file). \<open>time.Unix(sec, 0)\<close> adds the offset of the
  Unix epoch in 64-bit signed arithmetic.
\<close>

type_synonym Time = int

definition zeroTime :: Time where
  "zeroTime = 0"

definition IsZero :: "Time \<Rightarrow> bool" where
  "IsZero t = (t = 0)"

definition Before :: "Time \<Rightarrow> Time \<Rightarrow> bool" where
  "Before t u = (t < u)"

definition After :: "Time \<Rightarrow> Time \<Rightarrow> bool" where
  "After t u = (u < t)"

definition unixToInternal :: int where
  "unixToInternal = 62135596800"

definition Unix :: "int \<Rightarrow> Time" where
  "Unix epoch = sint (word_of_int (epoch + unixToInternal) :: 64 word) * 1000000000"

subsection \<open>strings and path/filepath\<close>

text \<open>
  Go strings are byte sequences, here \<open>char list\<close>. \<open>strings.Index\<close> returns the
  position of the first occurrence, \<open>None\<close> standing for Go's \<open>-1\<close>.
\<close>

definition HasPrefix :: "string \<Rightarrow> string \<Rightarrow> bool" where
  "HasPrefix s p = prefix p s"

definition HasSuffix :: "string \<Rightarrow> string \<Rightarrow> bool" where
  "HasSuffix s p = suffix p s"

definition TrimPrefix :: "string \<Rightarrow> string \<Rightarrow> string" where
  "TrimPrefix s p = (if HasPrefix s p then drop (length p) s else s)"

fun Index :: "string \<Rightarrow> string \<Rightarrow> nat option" where
  "Index [] sub = (if sub = [] then Some 0 else None)"
| "Index (c # cs) sub =
     (if prefix sub (c # cs) then Some 0 else map_option Suc (Index cs sub))"

definition Contains :: "string \<Rightarrow> string \<Rightarrow> bool" where
  "Contains s sub = (Index s sub \<noteq> None)"

text \<open>
  The white space of \<open>strings.Fields\<close> and \<open>strings.TrimSpace\<close>, on ASCII input:
  tab, line feed, vertical tab, form feed, carriage return and space. The multi-byte
  Unicode spaces are not modelled; bytes from 0x80 on count as ordinary characters.
\<close>

definition isSpace :: "char \<Rightarrow> bool" where
  "isSpace c = (c \<in> set [CHR 0x09, CHR 0x0A, CHR 0x0B, CHR 0x0C, CHR 0x0D, CHR 0x20])"

fun fieldsFrom :: "string \<Rightarrow> string \<Rightarrow> string list" where
  "fieldsFrom cur [] = (if cur = [] then [] else [cur])"
| "fieldsFrom cur (c # cs) =
     (if isSpace c then (if cur = [] then fieldsFrom [] cs else cur # fieldsFrom [] cs)
      else fieldsFrom (cur @ [c]) cs)"

definition Fields :: "string \<Rightarrow> string list" where
  "Fields s = fieldsFrom [] s"

definition TrimSpace :: "string \<Rightarrow> string" where
  "TrimSpace s = rev (dropWhile isSpace (rev (dropWhile isSpace s)))"

text \<open>\<open>strings.Split(s, "\n")\<close>: the pieces between line feeds, always at least one.\<close>

fun splitFrom :: "string \<Rightarrow> string \<Rightarrow> string list" where
  "splitFrom cur [] = [cur]"
| "splitFrom cur (c # cs) =
     (if c = CHR 0x0A then cur # splitFrom [] cs else splitFrom (cur @ [c]) cs)"

definition SplitNL :: "string \<Rightarrow> string list" where
  "SplitNL s = splitFrom [] s"

text \<open>
  \<open>filepath.Base\<close> on a Unix path: the empty path gives ".", trailing slashes are
  stripped, the last element is kept, and a path of slashes only gives "/".
\<close>

definition Base :: "string \<Rightarrow> string" where
  "Base path =
     (if path = [] then ''.''
      else let p = rev (dropWhile (\<lambda>c. c = CHR ''/'') (rev path));
               e = rev (takeWhile (\<lambda>c. c \<noteq> CHR ''/'') (rev p))
           in if e = [] then ''/'' else e)"

subsection \<open>bufio.Scanner with the default line splitter\<close>

text \<open>
  \<open>scanner.Scan()\<close>/\<open>scanner.Text()\<close> yield the lines of the input: the pieces
  between line feeds, a final piece without line feed only when it is not empty, one
  trailing carriage return dropped from each. A line of \<open>MaxScanTokenSize\<close> (64 KiB)
  bytes or more stops the scan with \<open>ErrTooLong\<close>; the lines before it have been
  delivered. The result is the delivered lines and the value of \<open>scanner.Err()\<close>.
\<close>

definition MaxScanTokenSize :: nat where
  "MaxScanTokenSize = 65536"

definition dropCR :: "string \<Rightarrow> string" where
  "dropCR l = (if l \<noteq> [] \<and> last l = CHR 0x0D then butlast l else l)"

fun rawLines :: "string \<Rightarrow> string \<Rightarrow> string list" where
  "rawLines cur [] = (if cur = [] then [] else [cur])"
| "rawLines cur (c # cs) =
     (if c = CHR 0x0A then cur # rawLines [] cs else rawLines (cur @ [c]) cs)"

definition ErrTooLong :: string where
  "ErrTooLong = ''bufio.Scanner: token too long''"

fun deliver :: "string list \<Rightarrow> string list \<times> string option" where
  "deliver [] = ([], None)"
| "deliver (l # ls) =
     (if MaxScanTokenSize \<le> length l then ([], Some ErrTooLong)
      else (case deliver ls of (out, err) \<Rightarrow> (dropCR l # out, err)))"

definition scanLines :: "string \<Rightarrow> string list \<times> string option" where
  "scanLines input = deliver (rawLines [] input)"

subsection \<open>strconv.ParseInt(s, 10, 64) and decimal printing\<close>

text \<open>
  An optional sign followed by at least one decimal digit, the value within the range
  of a signed 64-bit integer; \<open>None\<close> stands for a syntax or range error.
\<close>

definition isDigit :: "char \<Rightarrow> bool" where
  "isDigit c = (c \<in> set ''0123456789'')"

definition digitVal :: "char \<Rightarrow> int" where
  "digitVal c = of_char c - 48"

fun digitsVal :: "int \<Rightarrow> string \<Rightarrow> int" where
  "digitsVal acc [] = acc"
| "digitsVal acc (c # cs) = digitsVal (acc * 10 + digitVal c) cs"

definition parseDigits :: "string \<Rightarrow> int option" where
  "parseDigits s = (if s \<noteq> [] \<and> list_all isDigit s then Some (digitsVal 0 s) else None)"

definition ParseInt :: "string \<Rightarrow> int option" where
  "ParseInt s =
     (case s of
        [] \<Rightarrow> None
      | c # cs \<Rightarrow>
          (if c = CHR ''-'' then
             (case parseDigits cs of
                None \<Rightarrow> None
              | Some n \<Rightarrow> if n \<le> 9223372036854775808 then Some (- n) else None)
           else
             (case parseDigits (if c = CHR ''+'' then cs else c # cs) of
                None \<Rightarrow> None
              | Some n \<Rightarrow> if n \<le> 9223372036854775807 then Some n else None)))"

text \<open>The verb \<open>%d\<close> of \<open>fmt\<close> on a non-negative integer.\<close>

function itoa :: "nat \<Rightarrow> string" where
  "itoa n = (if n < 10 then [''0123456789'' ! n]
             else itoa (n div 10) @ [''0123456789'' ! (n mod 10)])"
  by pat_completeness auto
termination
  by (relation "measure id") auto

declare itoa.simps [simp del]

section \<open>Data model (internal/session, internal/bundle)\<close>

record Annotation =
  ann_Timestamp :: Time
  Message :: string
  IsSummary :: bool

record FileEdit =
  Path :: string
  fe_Timestamp :: Time
  fe_Diff :: string

record Session =
  ID :: string
  StartTime :: Time
  StopTime :: "Time option"
  WorkDir :: string
  Annotations :: "Annotation list"
  FileEdits :: "FileEdit list"
  HistoryBaselineCount :: int

record Command =
  Raw :: string
  Timestamp :: Time

record GitInfo =
  Branch :: string
  HeadCommit :: string
  Diff :: string
  StagedDiff :: string
  RecentLog :: "string list"

record CollectorResult =
  cr_FileEdits :: "FileEdit list"
  cr_Commands :: "Command list"
  cr_GitInfo :: "GitInfo option"
  cr_EditorTabs :: "string list"
  cr_Warnings :: "string list"

definition emptyResult :: CollectorResult where
  "emptyResult = \<lparr>cr_FileEdits = [], cr_Commands = [], cr_GitInfo = None,
                   cr_EditorTabs = [], cr_Warnings = []\<rparr>"

section \<open>Shell history collector (internal/collector/shell.go)\<close>

definition maxNoTimestampCommands :: nat where
  "maxNoTimestampCommands = 50"

definition handoffNoiseCommands :: "string list" where
  "handoffNoiseCommands = [''start'', ''stop'']"

definition isHandoffNoise :: "string \<Rightarrow> bool" where
  "isHandoffNoise raw =
     (let fields = Fields raw in
      if length fields < 2 then False
      else if Base (fields ! 0) \<noteq> ''handoff'' then False
      else list_ex (\<lambda>noise. fields ! 1 = noise) handoffNoiseCommands)"

text \<open>
  The first loop of \<open>filterCommands\<close>: self-noise is dropped, the rest is split
  into the commands with a timestamp and those without, each in input order.
\<close>

fun classify :: "Command list \<Rightarrow> Command list \<Rightarrow> Command list \<Rightarrow> Command list \<times> Command list" where
  "classify [] timestamped noTimestamp = (timestamped, noTimestamp)"
| "classify (cmd # cmds) timestamped noTimestamp =
     (if isHandoffNoise (Raw cmd) then classify cmds timestamped noTimestamp
      else if IsZero (Timestamp cmd) then classify cmds timestamped (noTimestamp @ [cmd])
      else classify cmds (timestamped @ [cmd]) noTimestamp)"

text \<open>The second loop: the timestamped commands inside the session window.\<close>

fun inWindow :: "Command list \<Rightarrow> Time \<Rightarrow> Time option \<Rightarrow> Command list \<Rightarrow> Command list" where
  "inWindow [] start stop result = result"
| "inWindow (cmd # cmds) start stop result =
     (if Before (Timestamp cmd) start then inWindow cmds start stop result
      else if (case stop of None \<Rightarrow> False | Some s \<Rightarrow> After (Timestamp cmd) s)
        then inWindow cmds start stop result
      else inWindow cmds start stop (result @ [cmd]))"

definition flushWarning :: string where
  "flushWarning =
     ''shell history was not flushed during session '' @ [CHR 0xE2, CHR 0x80, CHR 0x94] @
     '' add '' @ [CHR 0x27] @ ''setopt INC_APPEND_HISTORY'' @ [CHR 0x27] @
     '' to ~/.zshrc (zsh) or '' @ [CHR 0x27] @ ''PROMPT_COMMAND='' @ [CHR 0x22] @
     ''history -a'' @ [CHR 0x22, CHR 0x27] @
     '' to ~/.bashrc (bash) to capture commands in real time''"

definition noTimestampWarning :: "nat \<Rightarrow> string" where
  "noTimestampWarning n =
     ''shell history has no timestamps; showing '' @ itoa n @ '' commands since session start''"

text \<open>
  \<open>filterCommands\<close> returns the kept commands; the warnings it appends through its
  pointer argument are returned as the second component.
\<close>

definition filterCommands ::
  "Command list \<Rightarrow> Time \<Rightarrow> Time option \<Rightarrow> int \<Rightarrow> string list \<Rightarrow> Command list \<times> string list" where
  "filterCommands commands start stop baselineCount warnings =
     (case classify commands [] [] of (timestamped, noTimestamp) \<Rightarrow>
        let result = inWindow timestamped start stop [] in
        if 0 < length noTimestamp then
          (case (if 0 < baselineCount \<and> baselineCount < int (length noTimestamp)
                   then (drop (nat baselineCount) noTimestamp, warnings)
                 else if int (length noTimestamp) \<le> baselineCount
                   then ([], warnings @ [flushWarning])
                 else (noTimestamp, warnings)) of
             (fresh, warnings1) \<Rightarrow>
               let fresh2 = (if maxNoTimestampCommands < length fresh
                             then drop (length fresh - maxNoTimestampCommands) fresh
                             else fresh) in
               if 0 < length fresh2
                 then (result @ fresh2, warnings1 @ [noTimestampWarning (length fresh2)])
               else (result, warnings1))
        else (result, warnings))"

subsection \<open>The three history grammars\<close>

text \<open>
  Each parser returns the commands read and the scanner's error. The parameter
  \<open>since\<close> is not used by the code.
\<close>

fun bashLoop :: "string list \<Rightarrow> Time \<Rightarrow> Command list \<Rightarrow> Command list" where
  "bashLoop [] pendingTime commands = commands"
| "bashLoop (line # rest) pendingTime commands =
     (if HasPrefix line ''#'' then
        (case ParseInt (TrimPrefix line ''#'') of
           Some epoch \<Rightarrow> bashLoop rest (Unix epoch) commands
         | None \<Rightarrow> bashLoop rest zeroTime commands)
      else if line = [] then bashLoop rest zeroTime commands
      else bashLoop rest zeroTime (commands @ [\<lparr>Raw = line, Timestamp = pendingTime\<rparr>]))"

definition parseBashHistory :: "string \<Rightarrow> Time \<Rightarrow> Command list \<times> string option" where
  "parseBashHistory r since =
     (case scanLines r of (lines, err) \<Rightarrow> (bashLoop lines zeroTime [], err))"

text \<open>
  The extended form \<open>: <epoch>:<elapsed>;<command>\<close> of a zsh line; \<open>None\<close> when
  the line falls through to the plain form.
\<close>

definition zshExtended :: "string \<Rightarrow> Command option" where
  "zshExtended line =
     (if HasPrefix line '': '' then
        (let rest = drop 2 line in
         case Index rest '';'' of
           None \<Rightarrow> None
         | Some semiIdx \<Rightarrow>
             if 0 < semiIdx then
               (let timePart = take semiIdx rest;
                    cmd = drop (semiIdx + 1) rest in
                case Index timePart '':'' of
                  None \<Rightarrow> None
                | Some colonIdx \<Rightarrow>
                    if 0 < colonIdx then
                      (case ParseInt (take colonIdx timePart) of
                         Some epoch \<Rightarrow> Some \<lparr>Raw = cmd, Timestamp = Unix epoch\<rparr>
                       | None \<Rightarrow> None)
                    else None)
             else None)
      else None)"

fun zshLoop :: "string list \<Rightarrow> Command list \<Rightarrow> Command list" where
  "zshLoop [] commands = commands"
| "zshLoop (line # rest) commands =
     (if line = [] then zshLoop rest commands
      else (case zshExtended line of
              Some c \<Rightarrow> zshLoop rest (commands @ [c])
            | None \<Rightarrow> zshLoop rest (commands @ [\<lparr>Raw = line, Timestamp = zeroTime\<rparr>])))"

definition parseZshHistory :: "string \<Rightarrow> Time \<Rightarrow> Command list \<times> string option" where
  "parseZshHistory r since = (case scanLines r of (lines, err) \<Rightarrow> (zshLoop lines [], err))"

fun fishLoop :: "string list \<Rightarrow> string \<Rightarrow> Time \<Rightarrow> bool \<Rightarrow> Command list \<Rightarrow> Command list" where
  "fishLoop [] currentCmd currentTime inEntry commands =
     (if inEntry \<and> currentCmd \<noteq> []
        then commands @ [\<lparr>Raw = currentCmd, Timestamp = currentTime\<rparr>]
      else commands)"
| "fishLoop (line # rest) currentCmd currentTime inEntry commands =
     (if HasPrefix line ''- cmd: '' then
        fishLoop rest (TrimPrefix line ''- cmd: '') zeroTime True
          (if inEntry \<and> currentCmd \<noteq> []
             then commands @ [\<lparr>Raw = currentCmd, Timestamp = currentTime\<rparr>]
           else commands)
      else if inEntry \<and> HasPrefix line ''  when: '' then
        (case ParseInt (TrimSpace (TrimPrefix line ''  when: '')) of
           Some epoch \<Rightarrow> fishLoop rest currentCmd (Unix epoch) inEntry commands
         | None \<Rightarrow> fishLoop rest currentCmd currentTime inEntry commands)
      else fishLoop rest currentCmd currentTime inEntry commands)"

definition parseFishHistory :: "string \<Rightarrow> Time \<Rightarrow> Command list \<times> string option" where
  "parseFishHistory r since =
     (case scanLines r of (lines, err) \<Rightarrow> (fishLoop lines [] zeroTime False [], err))"

subsection \<open>The collector\<close>

text \<open>
  What the collector reads from its surroundings: the \<open>SHELL\<close> variable, the home
  directory, \<open>filepath.Join\<close>, the content of a file (\<open>Inl\<close> the error of
  \<open>os.Open\<close>), and the plugin's command log (\<open>None\<close> when the file does not exist).
\<close>

record Env =
  env_SHELL :: string
  env_Home :: string
  env_Join :: "string list \<Rightarrow> string"
  env_Open :: "string \<Rightarrow> string + string"
  env_CommandLog :: "(string + string) option"

record ShellCollector =
  HistoryPath :: string
  UsePluginLog :: bool

definition historyParser :: "string \<Rightarrow> string \<Rightarrow> Time \<Rightarrow> Command list \<times> string option" where
  "historyParser shell =
     (if shell = ''bash'' then parseBashHistory
      else if shell = ''zsh'' then parseZshHistory
      else if shell = ''fish'' then parseFishHistory
      else parseBashHistory)"

definition defaultHistoryPath :: "Env \<Rightarrow> string \<Rightarrow> string" where
  "defaultHistoryPath env shell =
     (if shell = ''bash'' then env_Join env [env_Home env, ''.bash_history'']
      else if shell = ''zsh'' then env_Join env [env_Home env, ''.zsh_history'']
      else if shell = ''fish''
        then env_Join env [env_Home env, ''.local'', ''share'', ''fish'', ''fish_history'']
      else env_Join env [env_Home env, ''.bash_history''])"

definition collectFromHistory :: "Env \<Rightarrow> ShellCollector \<Rightarrow> Session \<Rightarrow> CollectorResult" where
  "collectFromHistory env sc sess =
     (let shell = Base (env_SHELL env);
          histPath = (if HistoryPath sc = [] then defaultHistoryPath env shell
                      else HistoryPath sc) in
      case env_Open env histPath of
        Inl err \<Rightarrow>
          emptyResult\<lparr>cr_Warnings :=
            [''shell history unavailable ('' @ histPath @ ''): '' @ err]\<rparr>
      | Inr f \<Rightarrow>
          (case historyParser shell f (StartTime sess) of
             (commands, Some err) \<Rightarrow>
               emptyResult\<lparr>cr_Warnings :=
                 [''failed to parse shell history ('' @ histPath @ ''): '' @ err]\<rparr>
           | (commands, None) \<Rightarrow>
               (case filterCommands commands (StartTime sess) (StopTime sess)
                       (HistoryBaselineCount sess) [] of
                  (filtered, warnings) \<Rightarrow>
                    emptyResult\<lparr>cr_Commands := filtered, cr_Warnings := warnings\<rparr>)))"

text \<open>
  \<open>SnapshotHistoryBaseline\<close>, called when a session starts: the number of commands in
  the history file, zero when it cannot be read or parsed.
\<close>

definition SnapshotHistoryBaseline :: "Env \<Rightarrow> string \<Rightarrow> int" where
  "SnapshotHistoryBaseline env historyPathOverride =
     (let shell = Base (env_SHELL env);
          histPath = (if historyPathOverride = [] then defaultHistoryPath env shell
                      else historyPathOverride) in
      case env_Open env histPath of
        Inl err \<Rightarrow> 0
      | Inr f \<Rightarrow>
          (case historyParser shell f zeroTime of
             (commands, Some err) \<Rightarrow> 0
           | (commands, None) \<Rightarrow> int (length commands)))"

subsection \<open>A concrete environment for examples\<close>

definition exampleJoin :: "string list \<Rightarrow> string" where
  "exampleJoin elems = foldr (\<lambda>e acc. if acc = [] then e else e @ ''/'' @ acc) elems []"

definition exampleEnv :: "string \<Rightarrow> string \<Rightarrow> Env" where
  "exampleEnv shell history =
     \<lparr>env_SHELL = shell, env_Home = ''/home/dev'', env_Join = exampleJoin,
      env_Open = (\<lambda>p. if p = ''/home/dev/.bash_history'' \<or> p = ''/home/dev/.zsh_history''
                        then Inr history else Inl ''no such file or directory''),
      env_CommandLog = None\<rparr>"

definition exampleSession :: "int \<Rightarrow> Session" where
  "exampleSession baseline =
     \<lparr>ID = ''3f2c'', StartTime = Unix 1700000000, StopTime = Some (Unix 1700000900),
      WorkDir = ''/home/dev/project'', Annotations = [], FileEdits = [],
      HistoryBaselineCount = baseline\<rparr>"


definition plainZshHistory :: string where
  "plainZshHistory = ''ls'' @ [CHR 0x0A] @ ''make test'' @ [CHR 0x0A]"

text \<open>
  A zsh history without timestamps, as the file is when a session starts, the command
  that starts the session being its only line, and as it is when the session stops
  after one more command.
\<close>

definition historyAtStart :: string where
  "historyAtStart = ''handoff start'' @ [CHR 0x0A]"

definition historyAtStop :: string where
  "historyAtStop = ''handoff start'' @ [CHR 0x0A] @ ''ls'' @ [CHR 0x0A]"

subsection \<open>Well-formed history files\<close>

text \<open>
  The three grammars, as the comments of the parsers give them. A file is a sequence of
  lines, each ended by a line feed. A bash entry is a command line, preceded by a line
  \<open>#<epoch>\<close> when it carries a timestamp; a zsh entry is one line
  \<open>: <epoch>:<elapsed>;<command>\<close>; a fish entry is a line \<open>- cmd: <command>\<close>
  followed by a line \<open>  when: <epoch>\<close>. Epochs are printed in decimal.
\<close>

definition unlines :: "string list \<Rightarrow> string" where
  "unlines ls = concat (map (\<lambda>l. l @ [CHR 0x0A]) ls)"

definition lineOK :: "string \<Rightarrow> bool" where
  "lineOK l = (CHR 0x0A \<notin> set l \<and> length l < MaxScanTokenSize \<and>
               \<not> (l \<noteq> [] \<and> last l = CHR 0x0D))"

definition epochOK :: "nat \<Rightarrow> bool" where
  "epochOK n = (n \<le> 9223372036854775807)"

fun bashLines :: "string \<times> nat option \<Rightarrow> string list" where
  "bashLines (cmd, None) = [cmd]"
| "bashLines (cmd, Some epoch) = [''#'' @ itoa epoch, cmd]"

fun bashCommand :: "string \<times> nat option \<Rightarrow> Command" where
  "bashCommand (cmd, None) = \<lparr>Raw = cmd, Timestamp = zeroTime\<rparr>"
| "bashCommand (cmd, Some epoch) = \<lparr>Raw = cmd, Timestamp = Unix (int epoch)\<rparr>"

fun bashEntryOK :: "string \<times> nat option \<Rightarrow> bool" where
  "bashEntryOK (cmd, ts) =
     (cmd \<noteq> [] \<and> \<not> HasPrefix cmd ''#'' \<and> lineOK cmd \<and>
      (case ts of None \<Rightarrow> True | Some epoch \<Rightarrow> epochOK epoch))"

fun zshLines :: "string \<times> nat \<times> nat \<Rightarrow> string list" where
  "zshLines (cmd, epoch, elapsed) = ['': '' @ itoa epoch @ '':'' @ itoa elapsed @ '';'' @ cmd]"

fun zshCommand :: "string \<times> nat \<times> nat \<Rightarrow> Command" where
  "zshCommand (cmd, epoch, elapsed) = \<lparr>Raw = cmd, Timestamp = Unix (int epoch)\<rparr>"

fun zshEntryOK :: "string \<times> nat \<times> nat \<Rightarrow> bool" where
  "zshEntryOK (cmd, epoch, elapsed) =
     (lineOK ('': '' @ itoa epoch @ '':'' @ itoa elapsed @ '';'' @ cmd) \<and> epochOK epoch)"

fun fishLines :: "string \<times> nat \<Rightarrow> string list" where
  "fishLines (cmd, epoch) = [''- cmd: '' @ cmd, ''  when: '' @ itoa epoch]"

fun fishCommand :: "string \<times> nat \<Rightarrow> Command" where
  "fishCommand (cmd, epoch) = \<lparr>Raw = cmd, Timestamp = Unix (int epoch)\<rparr>"

fun fishEntryOK :: "string \<times> nat \<Rightarrow> bool" where
  "fishEntryOK (cmd, epoch) = (cmd \<noteq> [] \<and> lineOK (''- cmd: '' @ cmd) \<and> epochOK epoch)"

definition mixedZshHistory :: string where
  "mixedZshHistory = unlines [''echo a'', '': 1700000100:0;echo b'']"

section \<open>Git collector (internal/collector/git.go)\<close>

text \<open>
  The error of a git query: an \<open>*exec.ExitError\<close> with its exit code, or any other
  error. A \<open>GitRunner\<close> maps the working directory and the argument vector to the
  standard output or to an error.
\<close>

datatype RunError = ExitError int | OtherError string

type_synonym GitRunner = "string \<Rightarrow> string list \<Rightarrow> RunError + string"

record GitCollector =
  gc_WorkDir :: string
  Runner :: "GitRunner option"

definition isExitCode128 :: "RunError \<Rightarrow> bool" where
  "isExitCode128 err = (case err of ExitError code \<Rightarrow> code = 128 | OtherError msg \<Rightarrow> False)"

definition parseLogLines :: "string \<Rightarrow> string list" where
  "parseLogLines output = filter (\<lambda>l. l \<noteq> []) (SplitNL output)"

text \<open>
  \<open>Collect\<close> takes as parameters the real subprocess runner, used when the collector
  has none, and the RFC 3339 formatting of the start time. \<open>Inl\<close> is the fatal error.
\<close>

definition GitCollector_Collect ::
  "GitRunner \<Rightarrow> (Time \<Rightarrow> string) \<Rightarrow> GitCollector \<Rightarrow> Session \<Rightarrow> RunError + CollectorResult" where
  "GitCollector_Collect defaultGitRunner formatRFC3339 g sess =
     (let runner = (case Runner g of None \<Rightarrow> defaultGitRunner | Some r \<Rightarrow> r);
          workDir = (if gc_WorkDir g = [] then WorkDir sess else gc_WorkDir g) in
      case runner workDir [''rev-parse'', ''--abbrev-ref'', ''HEAD''] of
        Inl err \<Rightarrow>
          if isExitCode128 err
            then Inr (emptyResult\<lparr>cr_Warnings := [''not a git repository'']\<rparr>)
          else Inl err
      | Inr branch \<Rightarrow>
          (case runner workDir [''rev-parse'', ''HEAD''] of
             Inl err \<Rightarrow> Inl err
           | Inr headCommit \<Rightarrow>
               (case runner workDir [''diff''] of
                  Inl err \<Rightarrow> Inl err
                | Inr diff \<Rightarrow>
                    (case runner workDir [''diff'', ''--staged''] of
                       Inl err \<Rightarrow> Inl err
                     | Inr stagedDiff \<Rightarrow>
                         (case runner workDir
                                 [''log'', ''--oneline'',
                                  ''--since='' @ formatRFC3339 (StartTime sess)] of
                            Inl err \<Rightarrow> Inl err
                          | Inr logOut \<Rightarrow>
                              Inr (emptyResult\<lparr>cr_GitInfo := Some
                                \<lparr>Branch = TrimSpace branch,
                                 HeadCommit = TrimSpace headCommit,
                                 Diff = diff,
                                 StagedDiff = stagedDiff,
                                 RecentLog = parseLogLines logOut\<rparr>\<rparr>))))))"

text \<open>The five queries of one collection, in the order in which they are run.\<close>

definition gitQueries :: "string \<Rightarrow> string list list" where
  "gitQueries since =
     [[''rev-parse'', ''--abbrev-ref'', ''HEAD''], [''rev-parse'', ''HEAD''], [''diff''],
      [''diff'', ''--staged''], [''log'', ''--oneline'', ''--since='' @ since]]"

definition exampleRunner :: "int \<Rightarrow> int \<Rightarrow> GitRunner" where
  "exampleRunner branchExit diffExit workDir args =
     (if args = [''rev-parse'', ''--abbrev-ref'', ''HEAD'']
        then (if branchExit = 0 then Inr (''main'' @ [CHR 0x0A]) else Inl (ExitError branchExit))
      else if args = [''rev-parse'', ''HEAD''] then Inr (''abc123def456'' @ [CHR 0x0A])
      else if args = [''diff'']
        then (if diffExit = 0 then Inr ''diff --git a/foo.go b/foo.go''
              else Inl (ExitError diffExit))
      else if args = [''diff'', ''--staged''] then Inr []
      else Inr (''abc123 first commit'' @ [CHR 0x0A] @ ''def456 second commit'' @ [CHR 0x0A]))"

definition exampleFormat :: "Time \<Rightarrow> string" where
  "exampleFormat t = ''2023-11-14T22:13:20Z''"

section \<open>File activity collector (internal/collector/files.go)\<close>

text \<open>
  The file system as the collector sees it: opening a file, \<open>filepath.Join\<close>,
  \<open>filepath.Rel\<close>, \<open>filepath.Match\<close> (an error counts as no match), the
  entries that \<open>filepath.WalkDir\<close> hands to its callback, in order, and the diff
  that \<open>captureFileDiff\<close> obtains for a path.
\<close>

datatype FileError = ErrNotExist | ErrOther string

record WalkEntry =
  we_path :: string
  we_err :: bool
  we_isDir :: bool
  we_modTime :: "Time option"

record FileSystem =
  fs_Open :: "string \<Rightarrow> FileError + string"
  fs_Join :: "string list \<Rightarrow> string"
  fs_Rel :: "string \<Rightarrow> string \<Rightarrow> string option"
  fs_Match :: "string \<Rightarrow> string \<Rightarrow> bool"
  fs_WalkDir :: "string \<Rightarrow> WalkEntry list"
  fs_captureFileDiff :: "string \<Rightarrow> string \<Rightarrow> string"

record FileCollector =
  fc_WorkDir :: string
  IgnorePatterns :: "string list"

definition errorText :: "FileError \<Rightarrow> string" where
  "errorText e = (case e of ErrNotExist \<Rightarrow> ''file does not exist'' | ErrOther msg \<Rightarrow> msg)"

definition readPatternFile :: "FileSystem \<Rightarrow> string \<Rightarrow> string list \<times> FileError option" where
  "readPatternFile fs path =
     (case fs_Open fs path of
        Inl e \<Rightarrow> ([], Some e)
      | Inr f \<Rightarrow>
          (case scanLines f of
             (lines, err) \<Rightarrow>
               (filter (\<lambda>line. \<not> (line = [] \<or> HasPrefix line ''#'')) (map TrimSpace lines),
                map_option ErrOther err)))"

fun loadIgnoreFiles ::
  "FileSystem \<Rightarrow> FileCollector \<Rightarrow> string list \<Rightarrow> string list \<Rightarrow> string list \<times> FileError option" where
  "loadIgnoreFiles fs fc [] patterns = (patterns, None)"
| "loadIgnoreFiles fs fc (name # names) patterns =
     (case readPatternFile fs (fs_Join fs [fc_WorkDir fc, name]) of
        (extra, Some err) \<Rightarrow>
          if err = ErrNotExist then loadIgnoreFiles fs fc names patterns
          else (patterns, Some err)
      | (extra, None) \<Rightarrow> loadIgnoreFiles fs fc names (patterns @ extra))"

definition loadIgnorePatterns :: "FileSystem \<Rightarrow> FileCollector \<Rightarrow> string list \<times> FileError option" where
  "loadIgnorePatterns fs fc =
     loadIgnoreFiles fs fc [''.gitignore'', ''.handoffignore''] (IgnorePatterns fc)"

definition isIgnored :: "FileSystem \<Rightarrow> FileCollector \<Rightarrow> string \<Rightarrow> string list \<Rightarrow> bool" where
  "isIgnored fs fc path patterns =
     (let rel = (if fc_WorkDir fc \<noteq> []
                 then (case fs_Rel fs (fc_WorkDir fc) path of Some r \<Rightarrow> r | None \<Rightarrow> path)
                 else path);
          base = Base path in
      list_ex (\<lambda>pattern. fs_Match fs pattern base \<or> fs_Match fs pattern rel \<or>
                          fs_Match fs pattern path) patterns)"

text \<open>
  The map \<open>latest\<close> from paths to timestamps is an association list with one pair
  per path. Go iterates a map in an unspecified order; the model lists the paths in
  the order in which they were first entered.
\<close>

definition noteEdit :: "string \<Rightarrow> Time \<Rightarrow> (string \<times> Time) list \<Rightarrow> (string \<times> Time) list" where
  "noteEdit path ts latest =
     (case map_of latest path of
        None \<Rightarrow> AList.update path ts latest
      | Some t \<Rightarrow> if After ts t then AList.update path ts latest else latest)"

fun seedLatest :: "FileEdit list \<Rightarrow> (string \<times> Time) list \<Rightarrow> (string \<times> Time) list" where
  "seedLatest [] latest = latest"
| "seedLatest (fe # fes) latest = seedLatest fes (noteEdit (Path fe) (fe_Timestamp fe) latest)"

text \<open>
  The callback of the walk: the file and modification time it records, \<open>None\<close> when
  it returns without recording.
\<close>

definition scanFile ::
  "FileSystem \<Rightarrow> FileCollector \<Rightarrow> string list \<Rightarrow> Time \<Rightarrow> Time \<Rightarrow> WalkEntry \<Rightarrow> (string \<times> Time) option" where
  "scanFile fs fc patterns start stopTime d =
     (if we_err d then None
      else if we_isDir d then None
      else if isIgnored fs fc (we_path d) patterns then None
      else (case we_modTime d of
              None \<Rightarrow> None
            | Some mtime \<Rightarrow>
                if Before mtime start \<or> After mtime stopTime then None
                else Some (we_path d, mtime)))"

fun walkLatest ::
  "FileSystem \<Rightarrow> FileCollector \<Rightarrow> string list \<Rightarrow> Time \<Rightarrow> Time \<Rightarrow> WalkEntry list \<Rightarrow>
     (string \<times> Time) list \<Rightarrow> (string \<times> Time) list" where
  "walkLatest fs fc patterns start stopTime [] latest = latest"
| "walkLatest fs fc patterns start stopTime (d # ds) latest =
     walkLatest fs fc patterns start stopTime ds
       (case scanFile fs fc patterns start stopTime d of
          None \<Rightarrow> latest
        | Some (path, mtime) \<Rightarrow> noteEdit path mtime latest)"

fun buildEdits ::
  "FileSystem \<Rightarrow> FileCollector \<Rightarrow> string list \<Rightarrow> (string \<times> Time) list \<Rightarrow> FileEdit list" where
  "buildEdits fs fc patterns [] = []"
| "buildEdits fs fc patterns ((path, ts) # latest) =
     (if isIgnored fs fc path patterns then buildEdits fs fc patterns latest
      else \<lparr>Path = path, fe_Timestamp = ts,
            fe_Diff = fs_captureFileDiff fs path (fc_WorkDir fc)\<rparr>
           # buildEdits fs fc patterns latest)"

text \<open>\<open>Collect\<close>, with the current time as parameter; its error result is always nil.\<close>

definition FileCollector_Collect ::
  "FileSystem \<Rightarrow> Time \<Rightarrow> FileCollector \<Rightarrow> Session \<Rightarrow> CollectorResult" where
  "FileCollector_Collect fs now fc sess =
     (case loadIgnorePatterns fs fc of
        (patterns, Some err) \<Rightarrow>
          emptyResult\<lparr>cr_Warnings := [''failed to load ignore patterns: '' @ errorText err]\<rparr>
      | (patterns, None) \<Rightarrow>
          (let stopTime = (case StopTime sess of None \<Rightarrow> now | Some t \<Rightarrow> t);
               latest = seedLatest (FileEdits sess) [];
               workDir = (if fc_WorkDir fc = [] then ''.'' else fc_WorkDir fc);
               latest2 = walkLatest fs fc patterns (StartTime sess) stopTime
                           (fs_WalkDir fs workDir) latest in
           emptyResult\<lparr>cr_FileEdits := buildEdits fs fc patterns latest2\<rparr>))"

text \<open>
  The occurrences of paths that a collection sees: the edits recorded on the session
  and the files recorded by the walk.
\<close>

definition occurrences ::
  "FileSystem \<Rightarrow> Time \<Rightarrow> FileCollector \<Rightarrow> Session \<Rightarrow> (string \<times> Time) list" where
  "occurrences fs now fc sess =
     map (\<lambda>fe. (Path fe, fe_Timestamp fe)) (FileEdits sess) @
     List.map_filter
       (scanFile fs fc (fst (loadIgnorePatterns fs fc)) (StartTime sess)
          (case StopTime sess of None \<Rightarrow> now | Some t \<Rightarrow> t))
       (fs_WalkDir fs (if fc_WorkDir fc = [] then ''.'' else fc_WorkDir fc))"

text \<open>Recording a list of occurrences one after the other.\<close>

definition noteAll :: "(string \<times> Time) list \<Rightarrow> (string \<times> Time) list \<Rightarrow> (string \<times> Time) list" where
  "noteAll l occ = foldl (\<lambda>l (p, t). noteEdit p t l) l occ"

definition exampleFS :: FileSystem where
  "exampleFS =
     \<lparr>fs_Open = (\<lambda>p. Inl ErrNotExist),
      fs_Join = exampleJoin,
      fs_Rel = (\<lambda>base target. Some (drop (length base + 1) target)),
      fs_Match = (\<lambda>pattern name. pattern = name),
      fs_WalkDir = (\<lambda>root.
        [\<lparr>we_path = root, we_err = False, we_isDir = True, we_modTime = Some (Unix 1700000500)\<rparr>,
         \<lparr>we_path = root @ ''/main.go'', we_err = False, we_isDir = False,
          we_modTime = Some (Unix 1700000500)\<rparr>,
         \<lparr>we_path = root @ ''/old.go'', we_err = False, we_isDir = False,
          we_modTime = Some (Unix 1600000000)\<rparr>]),
      fs_captureFileDiff = (\<lambda>path workDir. [])\<rparr>"

definition watchedSession :: Session where
  "watchedSession =
     \<lparr>ID = ''3f2c'', StartTime = Unix 1700000000, StopTime = Some (Unix 1700000900),
      WorkDir = ''/p'',
      Annotations = [],
      FileEdits =
        [\<lparr>Path = ''/p/main.go'', fe_Timestamp = Unix 1700000300, fe_Diff = []\<rparr>,
         \<lparr>Path = ''/p/notes.md'', fe_Timestamp = Unix 1700000200, fe_Diff = []\<rparr>,
         \<lparr>Path = ''/p/main.go'', fe_Timestamp = Unix 1700000100, fe_Diff = []\<rparr>],
      HistoryBaselineCount = 0\<rparr>"

section \<open>Bundle, renderers and parsers (internal/bundle)\<close>

record SessionMeta =
  sm_ID :: string
  sm_StartTime :: Time
  sm_StopTime :: Time
  sm_WorkDir :: string
  Duration :: string
  Author :: string

record ContextBundle =
  cb_Session :: SessionMeta
  cb_Annotations :: "Annotation list"
  cb_FileEdits :: "FileEdit list"
  Git :: "GitInfo option"
  cb_Commands :: "Command list"
  cb_EditorTabs :: "string list"

text \<open>
  The functions of \<open>encoding/json\<close>, \<open>encoding/base64\<close> and \<open>time\<close> that the
  renderers and parsers call are parameters of the model: \<open>json.Marshal\<close>,
  \<open>json.MarshalIndent\<close> with prefix "" and indent of two spaces, \<open>json.Unmarshal\<close>
  into a bundle, \<open>base64.StdEncoding\<close>, \<open>Time.Format\<close> with its layout,
  the text of \<open>now.Sub(start).Round(time.Second)\<close>, and \<open>filepath.Join\<close>.
  \<open>Inl\<close> carries the text of an error.
\<close>

record Lib =
  json_Marshal :: "ContextBundle \<Rightarrow> string + string"
  json_MarshalIndent :: "ContextBundle \<Rightarrow> string + string"
  json_Unmarshal :: "string \<Rightarrow> string + ContextBundle"
  base64_EncodeToString :: "string \<Rightarrow> string"
  base64_DecodeString :: "string \<Rightarrow> string + string"
  time_Format :: "string \<Rightarrow> Time \<Rightarrow> string"
  duration_String :: "Time \<Rightarrow> Time \<Rightarrow> string"
  filepath_Join :: "string list \<Rightarrow> string"

definition JSONRenderer_Render :: "Lib \<Rightarrow> ContextBundle \<Rightarrow> string + string" where
  "JSONRenderer_Render L bundle = json_MarshalIndent L bundle"

definition versionSentinel :: string where
  "versionSentinel = ''<!-- handoff-bundle-version: 1 -->''"

definition dataPrefix :: string where
  "dataPrefix = ''<!-- handoff-data: ''"

definition dataSuffix :: string where
  "dataSuffix = '' -->''"

definition emDash :: string where
  "emDash = [CHR 0xE2, CHR 0x80, CHR 0x94]"

definition newline :: string where
  "newline = [CHR 0x0A]"

fun renderAnnotations :: "Lib \<Rightarrow> Annotation list \<Rightarrow> string" where
  "renderAnnotations L [] = []"
| "renderAnnotations L (a # as) =
     ''- ['' @ time_Format L ''2006-01-02 15:04:05'' (ann_Timestamp a) @ ''] ('' @
     (if IsSummary a then ''summary'' else ''note'') @ '') '' @ Message a @ newline @
     renderAnnotations L as"

fun renderFileEdits :: "Lib \<Rightarrow> FileEdit list \<Rightarrow> string" where
  "renderFileEdits L [] = []"
| "renderFileEdits L (fe # fes) =
     ''| '' @ Path fe @ '' | '' @ time_Format L ''2006-01-02 15:04:05'' (fe_Timestamp fe) @
     '' |'' @ newline @ renderFileEdits L fes"

definition renderDiff :: "string \<Rightarrow> string \<Rightarrow> string" where
  "renderDiff none d =
     (if d = [] then none @ newline
      else [CHR 0x60, CHR 0x60, CHR 0x60] @ ''diff'' @ newline @ d @
           (if \<not> HasSuffix d newline then newline else []) @
           [CHR 0x60, CHR 0x60, CHR 0x60] @ newline)"

fun renderBullets :: "string list \<Rightarrow> string" where
  "renderBullets [] = []"
| "renderBullets (line # lines) = ''- '' @ line @ newline @ renderBullets lines"

fun renderCommands :: "nat \<Rightarrow> Command list \<Rightarrow> string" where
  "renderCommands i [] = []"
| "renderCommands i (cmd # cmds) =
     itoa (i + 1) @ ''. '' @ [CHR 0x60] @ Raw cmd @ [CHR 0x60] @ newline @
     renderCommands (i + 1) cmds"

text \<open>The six sections that follow the two comment lines and the title.\<close>

definition renderSections :: "Lib \<Rightarrow> ContextBundle \<Rightarrow> string" where
  "renderSections L bundle =
     ''## Summary'' @ newline @ newline @
     ''- Duration: '' @ Duration (cb_Session bundle) @ newline @
     (if Author (cb_Session bundle) \<noteq> []
        then ''- Author: '' @ Author (cb_Session bundle) @ newline else []) @
     (case Git bundle of
        None \<Rightarrow> []
      | Some g \<Rightarrow> ''- Branch: '' @ Branch g @ newline @
                  ''- Head commit: '' @ HeadCommit g @ newline) @
     newline @
     ''## Annotations'' @ newline @ newline @
     (if length (cb_Annotations bundle) = 0 then ''_No annotations._'' @ newline
      else renderAnnotations L (cb_Annotations bundle)) @
     newline @
     ''## File Edits'' @ newline @ newline @
     (if length (cb_FileEdits bundle) = 0 then ''_No file edits recorded._'' @ newline
      else ''| Path | Last Modified |'' @ newline @ ''|------|---------------|'' @ newline @
           renderFileEdits L (cb_FileEdits bundle)) @
     newline @
     ''## Git Changes'' @ newline @ newline @
     (case Git bundle of
        None \<Rightarrow> ''_Not a git repository or git data unavailable._'' @ newline
      | Some g \<Rightarrow>
          ''### Unstaged'' @ newline @ newline @
          renderDiff ''_No unstaged changes._'' (Diff g) @ newline @
          ''### Staged'' @ newline @ newline @
          renderDiff ''_No staged changes._'' (StagedDiff g) @ newline @
          ''### Recent Commits'' @ newline @ newline @
          (if length (RecentLog g) = 0 then ''_No recent commits._'' @ newline
           else renderBullets (RecentLog g))) @
     newline @
     ''## Terminal Commands'' @ newline @ newline @
     (if length (cb_Commands bundle) = 0 then ''_No terminal commands recorded._'' @ newline
      else renderCommands 0 (cb_Commands bundle)) @
     newline @
     ''## Editor Tabs'' @ newline @ newline @
     (if length (cb_EditorTabs bundle) = 0 then ''_No editor tabs recorded._'' @ newline
      else renderBullets (cb_EditorTabs bundle)) @
     newline"

definition MarkdownRenderer_Render :: "Lib \<Rightarrow> ContextBundle \<Rightarrow> string + string" where
  "MarkdownRenderer_Render L bundle =
     (case json_Marshal L bundle of
        Inl err \<Rightarrow> Inl (''marshal bundle: '' @ err)
      | Inr jsonBytes \<Rightarrow>
          (let encoded = base64_EncodeToString L jsonBytes in
           Inr (versionSentinel @ newline @
                dataPrefix @ encoded @ dataSuffix @ newline @ newline @
                ''# Handoff '' @ emDash @ '' '' @ sm_WorkDir (cb_Session bundle) @ '' '' @
                emDash @ '' '' @
                time_Format L ''2006-01-02 15:04:05 MST'' (sm_StopTime (cb_Session bundle)) @
                newline @ newline @
                renderSections L bundle)))"

definition JSONParser_Parse :: "Lib \<Rightarrow> string \<Rightarrow> string + ContextBundle" where
  "JSONParser_Parse L data =
     (case json_Unmarshal L data of
        Inl err \<Rightarrow> Inl (''failed to parse JSON bundle: '' @ err)
      | Inr bundle \<Rightarrow> Inr bundle)"

definition MarkdownParser_Parse :: "Lib \<Rightarrow> string \<Rightarrow> string + ContextBundle" where
  "MarkdownParser_Parse L content =
     (if \<not> Contains content versionSentinel
        then Inl ''not a valid handoff bundle: missing version sentinel''
      else
        (case Index content dataPrefix of
           None \<Rightarrow> Inl ''not a valid handoff bundle: missing data payload''
         | Some start0 \<Rightarrow>
             (let start = start0 + length dataPrefix in
              case Index (drop start content) dataSuffix of
                None \<Rightarrow> Inl ''not a valid handoff bundle: malformed data payload''
              | Some end \<Rightarrow>
                  (let encoded = take end (drop start content) in
                   case base64_DecodeString L encoded of
                     Inl err \<Rightarrow>
                       Inl (''not a valid handoff bundle: corrupted base64 payload: '' @ err)
                   | Inr jsonBytes \<Rightarrow>
                       (case json_Unmarshal L jsonBytes of
                          Inl err \<Rightarrow>
                            Inl (''not a valid handoff bundle: failed to parse embedded JSON: ''
                                 @ err)
                        | Inr bundle \<Rightarrow> Inr bundle)))))"

text \<open>
  The errors of the Markdown parser all start with the same words; this is the
  \<open>InvalidBundle\<close> of the specification.
\<close>

definition isInvalidBundle :: "string \<Rightarrow> bool" where
  "isInvalidBundle err = HasPrefix err ''not a valid handoff bundle''"

text \<open>
  The embedded payload of a document: the text between the first occurrence of
  \<open>dataPrefix\<close> and the first occurrence of \<open>dataSuffix\<close> after it.
\<close>

definition embeddedPayload :: "string \<Rightarrow> string option" where
  "embeddedPayload content =
     (case Index content dataPrefix of
        None \<Rightarrow> None
      | Some start0 \<Rightarrow>
          (case Index (drop (start0 + length dataPrefix) content) dataSuffix of
             None \<Rightarrow> None
           | Some end \<Rightarrow> Some (take end (drop (start0 + length dataPrefix) content))))"

subsection \<open>A bundle and a stand-in for the library, for examples\<close>

definition exampleBundle :: ContextBundle where
  "exampleBundle =
     \<lparr>cb_Session = \<lparr>sm_ID = ''3f2c'', sm_StartTime = Unix 1700000000,
                     sm_StopTime = Unix 1700000900, sm_WorkDir = ''/p'',
                     Duration = ''15m0s'', Author = []\<rparr>,
      cb_Annotations = [\<lparr>ann_Timestamp = Unix 1700000300, Message = ''reproduced bug'',
                         IsSummary = False\<rparr>],
      cb_FileEdits = [\<lparr>Path = ''/p/main.go'', fe_Timestamp = Unix 1700000500, fe_Diff = []\<rparr>],
      Git = Some \<lparr>Branch = ''main'', HeadCommit = ''abc123def456'', Diff = ''diff'',
                  StagedDiff = [], RecentLog = [''abc123 first commit'']\<rparr>,
      cb_Commands = [\<lparr>Raw = ''make test'', Timestamp = Unix 1700000100\<rparr>],
      cb_EditorTabs = [''/p/main.go'']\<rparr>"

text \<open>
  The stand-in encodes every bundle as \<open>{}\<close> and decodes that text to
  \<open>exampleBundle\<close>; \<open>e30=\<close> is the base64 form of \<open>{}\<close>.
\<close>

definition exampleLib :: Lib where
  "exampleLib =
     \<lparr>json_Marshal = (\<lambda>b. Inr ''{}''),
      json_MarshalIndent = (\<lambda>b. Inr ''{}''),
      json_Unmarshal = (\<lambda>j. if j = ''{}'' then Inr exampleBundle
                            else Inl ''invalid character''),
      base64_EncodeToString = (\<lambda>s. ''e30=''),
      base64_DecodeString = (\<lambda>e. if e = ''e30='' then Inr ''{}''
                                 else Inl ''illegal base64 data at input byte 0''),
      time_Format = (\<lambda>layout t. ''2023-11-14 22:28:20''),
      duration_String = (\<lambda>now start. ''15m0s''),
      filepath_Join = exampleJoin\<rparr>"

definition exampleDocument :: "string \<Rightarrow> string \<Rightarrow> string" where
  "exampleDocument payload sections =
     versionSentinel @ newline @ dataPrefix @ payload @ dataSuffix @ newline @ newline @ sections"

section \<open>Plugin command log and the entry point of the shell collector\<close>

text \<open>
  \<open>ReadCommandLog\<close> (internal/shell/cmdlog.go): one entry \<open><epoch>TAB<command>\<close>
  per line; lines without a tab after at least one character, with an empty command or
  with an unreadable epoch are skipped. A log that does not exist is no error.
\<close>

fun commandLogLoop :: "string list \<Rightarrow> Command list \<Rightarrow> Command list" where
  "commandLogLoop [] cmds = cmds"
| "commandLogLoop (line # rest) cmds =
     (case Index line [CHR 0x09] of
        None \<Rightarrow> commandLogLoop rest cmds
      | Some tab \<Rightarrow>
          if tab < 1 then commandLogLoop rest cmds
          else if drop (tab + 1) line = [] then commandLogLoop rest cmds
          else (case ParseInt (take tab line) of
                  None \<Rightarrow> commandLogLoop rest cmds
                | Some epoch \<Rightarrow>
                    commandLogLoop rest
                      (cmds @ [\<lparr>Raw = drop (tab + 1) line, Timestamp = Unix epoch\<rparr>])))"

definition ReadCommandLog :: "Env \<Rightarrow> Command list \<times> string option" where
  "ReadCommandLog env =
     (case env_CommandLog env of
        None \<Rightarrow> ([], None)
      | Some (Inl err) \<Rightarrow> ([], Some err)
      | Some (Inr f) \<Rightarrow> (case scanLines f of (lines, err) \<Rightarrow> (commandLogLoop lines [], err)))"

definition TruncateCommandLog :: "Env \<Rightarrow> Env" where
  "TruncateCommandLog env =
     (case env_CommandLog env of
        None \<Rightarrow> env
      | Some f \<Rightarrow> env\<lparr>env_CommandLog := Some (Inr [])\<rparr>)"

text \<open>\<open>ShellCollector.Collect\<close>: its result and the surroundings it leaves.\<close>

definition ShellCollector_Collect :: "ShellCollector \<Rightarrow> Session \<Rightarrow> Env \<Rightarrow> CollectorResult \<times> Env" where
  "ShellCollector_Collect sc sess env =
     (if UsePluginLog sc then
        (case ReadCommandLog env of
           (cmds, None) \<Rightarrow>
             if 0 < length cmds then
               (case filterCommands cmds (StartTime sess) (StopTime sess) 0 [] of
                  (filtered, warnings) \<Rightarrow>
                    (emptyResult\<lparr>cr_Commands := filtered, cr_Warnings := warnings\<rparr>,
                     TruncateCommandLog env))
             else (collectFromHistory env sc sess, env)
         | (cmds, Some err) \<Rightarrow> (collectFromHistory env sc sess, env))
      else (collectFromHistory env sc sess, env))"

section \<open>The stop command (cmd/stop.go)\<close>

record Config =
  cfg_IgnorePatterns :: "string list"
  ShellHistoryPath :: string
  DefaultFormat :: string
  OutputDir :: string

record Profile =
  Name :: string
  pr_DefaultFormat :: string
  RecordCommands :: bool
  pr_OutputDir :: string
  ShellPluginShell :: string

text \<open>
  The persisted session record: absent, holding a session, or present but not
  readable or decodable (with the error of \<open>Load\<close>).
\<close>

datatype StoreFile = Absent | Holds Session | Unreadable string

definition store_Load :: "StoreFile \<Rightarrow> string + Session" where
  "store_Load f =
     (case f of
        Absent \<Rightarrow> Inl ''no active session''
      | Holds s \<Rightarrow> Inr s
      | Unreadable err \<Rightarrow> Inl err)"

text \<open>
  The world of the command: the session record, the files written, the two output
  streams, and the surroundings that the collectors read and change. A collector
  gets the session and the surroundings; it has no access to the session record.
\<close>

record 'e World =
  w_session :: StoreFile
  w_files :: "(string \<times> string) list"
  w_stderr :: "string list"
  w_stdout :: "string list"
  w_env :: 'e

type_synonym 'e Collector = "Session \<Rightarrow> 'e \<Rightarrow> (string + CollectorResult) \<times> 'e"

text \<open>
  What one run of the command is given: the clock, the flags, the configuration and
  profile, and the failures of \<open>NewSessionStore\<close>, \<open>os.WriteFile\<close> and
  \<open>store.Delete\<close>, if any.
\<close>

record StopArgs =
  sa_now :: Time
  stopMessage :: string
  stopFormat :: string
  sa_cfg :: Config
  sa_prof :: "Profile option"
  sa_storeError :: "string option"
  sa_writeError :: "string option"
  sa_deleteError :: "string option"

definition mergeResult :: "CollectorResult \<Rightarrow> CollectorResult \<Rightarrow> CollectorResult" where
  "mergeResult merged result =
     \<lparr>cr_FileEdits = cr_FileEdits merged @ cr_FileEdits result,
      cr_Commands = cr_Commands merged @ cr_Commands result,
      cr_GitInfo = (case cr_GitInfo result of None \<Rightarrow> cr_GitInfo merged | Some g \<Rightarrow> Some g),
      cr_EditorTabs = cr_EditorTabs merged @ cr_EditorTabs result,
      cr_Warnings = cr_Warnings merged @ cr_Warnings result\<rparr>"

fun runCollectors ::
  "'e Collector list \<Rightarrow> Session \<Rightarrow> CollectorResult \<Rightarrow> 'e \<Rightarrow> (string + CollectorResult) \<times> 'e" where
  "runCollectors [] s merged env = (Inr merged, env)"
| "runCollectors (c # cs) s merged env =
     (case c s env of
        (Inl err, env2) \<Rightarrow> (Inl (''collector error: '' @ err), env2)
      | (Inr result, env2) \<Rightarrow> runCollectors cs s (mergeResult merged result) env2)"

text \<open>The session in memory after the stop time and the summary have been set.\<close>

definition stoppedSession :: "StopArgs \<Rightarrow> Session \<Rightarrow> Session" where
  "stoppedSession args s =
     (let s1 = s\<lparr>StopTime := Some (sa_now args)\<rparr> in
      if stopMessage args \<noteq> []
        then s1\<lparr>Annotations := Annotations s1 @
               [\<lparr>ann_Timestamp = sa_now args, Message = stopMessage args, IsSummary = True\<rparr>]\<rparr>
      else s1)"

definition buildBundle :: "Lib \<Rightarrow> StopArgs \<Rightarrow> Session \<Rightarrow> CollectorResult \<Rightarrow> ContextBundle" where
  "buildBundle L args s merged =
     \<lparr>cb_Session =
        \<lparr>sm_ID = ID s, sm_StartTime = StartTime s, sm_StopTime = sa_now args,
         sm_WorkDir = WorkDir s,
         Duration = duration_String L (sa_now args) (StartTime s),
         Author = (case sa_prof args of None \<Rightarrow> [] | Some p \<Rightarrow> Name p)\<rparr>,
      cb_Annotations = Annotations s,
      cb_FileEdits = cr_FileEdits merged,
      Git = cr_GitInfo merged,
      cb_Commands = cr_Commands merged,
      cb_EditorTabs = cr_EditorTabs merged\<rparr>"

text \<open>
  The command returns its error, \<open>None\<close> on success, and the world it leaves. The
  list of collectors is built from the session, the configuration and the profile by
  \<open>mk\<close>.
\<close>

definition stopCmd ::
  "Lib \<Rightarrow> (Session \<Rightarrow> Config \<Rightarrow> Profile option \<Rightarrow> 'e Collector list) \<Rightarrow> StopArgs \<Rightarrow>
     'e World \<Rightarrow> string option \<times> 'e World" where
  "stopCmd L mk args w =
     (case sa_storeError args of
        Some err \<Rightarrow> (Some err, w)
      | None \<Rightarrow>
     (case store_Load (w_session w) of
        Inl err \<Rightarrow> (Some err, w)
      | Inr s0 \<Rightarrow>
     (let now = sa_now args;
          s = stoppedSession args s0;
          cfg = sa_cfg args;
          prof = sa_prof args in
      case runCollectors (mk s cfg prof) s emptyResult (w_env w) of
        (Inl err, env2) \<Rightarrow> (Some err, w\<lparr>w_env := env2\<rparr>)
      | (Inr merged, env2) \<Rightarrow>
     (let b = buildBundle L args s merged;
          format = (if stopFormat args = [] then DefaultFormat cfg else stopFormat args);
          ext = (if format = ''json'' then ''.json'' else ''.md'') in
      case (if format = ''json'' then JSONRenderer_Render L b
            else MarkdownRenderer_Render L b) of
        Inl err \<Rightarrow> (Some (''render bundle: '' @ err), w\<lparr>w_env := env2\<rparr>)
      | Inr data \<Rightarrow>
     (let filename = ''handoff-'' @ time_Format L ''2006-01-02T15:04:05Z07:00'' now @ ext;
          outputDir = (if OutputDir cfg = [] then ''.'' else OutputDir cfg);
          outputPath = filepath_Join L [outputDir, filename] in
      case sa_writeError args of
        Some err \<Rightarrow> (Some (''write output file: '' @ err), w\<lparr>w_env := env2\<rparr>)
      | None \<Rightarrow>
     (let w1 = w\<lparr>w_env := env2, w_files := (outputPath, data) # w_files w\<rparr> in
      case sa_deleteError args of
        Some err \<Rightarrow> (Some (''failed to delete session state: '' @ err), w1)
      | None \<Rightarrow>
          (None,
           w1\<lparr>w_session := Absent,
              w_stderr := w_stderr w1 @
                 map (\<lambda>warning. ''warning: '' @ warning @ newline) (cr_Warnings merged),
              w_stdout := w_stdout w1 @
                 [''Session stopped. Output: '' @ outputPath @ newline]\<rparr>)))))))"

subsection \<open>The four collectors of the command\<close>

text \<open>
  The surroundings of the four collectors: the file system, the shell environment, the
  git subprocess, the formatting of the start time, the clock and the editor tab
  collector (not modelled further; it returns no error).
\<close>

record Surroundings =
  sr_fs :: FileSystem
  sr_env :: Env
  sr_git :: GitRunner
  sr_format :: "Time \<Rightarrow> string"
  sr_now :: Time
  sr_editor :: "Session \<Rightarrow> CollectorResult"

definition runErrorText :: "RunError \<Rightarrow> string" where
  "runErrorText e = (case e of ExitError code \<Rightarrow> ''exit status '' @ itoa (nat code)
                               | OtherError msg \<Rightarrow> msg)"

definition fileC :: "FileCollector \<Rightarrow> Surroundings Collector" where
  "fileC fc s sr = (Inr (FileCollector_Collect (sr_fs sr) (sr_now sr) fc s), sr)"

definition shellC :: "ShellCollector \<Rightarrow> Surroundings Collector" where
  "shellC sc s sr =
     (case ShellCollector_Collect sc s (sr_env sr) of
        (result, env2) \<Rightarrow> (Inr result, sr\<lparr>sr_env := env2\<rparr>))"

definition gitC :: "GitCollector \<Rightarrow> Surroundings Collector" where
  "gitC g s sr =
     (case GitCollector_Collect (sr_git sr) (sr_format sr) g s of
        Inl err \<Rightarrow> (Inl (runErrorText err), sr)
      | Inr result \<Rightarrow> (Inr result, sr))"

definition editorC :: "Surroundings Collector" where
  "editorC s sr = (Inr (sr_editor sr s), sr)"

definition handoffCollectors :: "Session \<Rightarrow> Config \<Rightarrow> Profile option \<Rightarrow> Surroundings Collector list" where
  "handoffCollectors s cfg prof =
     [fileC \<lparr>fc_WorkDir = WorkDir s, IgnorePatterns = cfg_IgnorePatterns cfg\<rparr>,
      shellC \<lparr>HistoryPath = ShellHistoryPath cfg,
              UsePluginLog = (case prof of None \<Rightarrow> False | Some p \<Rightarrow> RecordCommands p)\<rparr>,
      gitC \<lparr>gc_WorkDir = WorkDir s, Runner = None\<rparr>,
      editorC]"

subsection \<open>A world for examples\<close>

definition exampleSurroundings :: Surroundings where
  "exampleSurroundings =
     \<lparr>sr_fs = exampleFS,
      sr_env = (exampleEnv ''/usr/bin/zsh'' plainZshHistory)
                 \<lparr>env_CommandLog := Some (Inr (''1700000100'' @ [CHR 0x09] @ ''make test'' @ newline))\<rparr>,
      sr_git = exampleRunner 0 1,
      sr_format = exampleFormat,
      sr_now = Unix 1700000900,
      sr_editor = (\<lambda>s. emptyResult)\<rparr>"

definition exampleWorld :: "Surroundings World" where
  "exampleWorld =
     \<lparr>w_session = Holds watchedSession, w_files = [], w_stderr = [], w_stdout = [],
      w_env = exampleSurroundings\<rparr>"

definition exampleArgs :: StopArgs where
  "exampleArgs =
     \<lparr>sa_now = Unix 1700000900, stopMessage = ''see retry loop'', stopFormat = [],
      sa_cfg = \<lparr>cfg_IgnorePatterns = [], ShellHistoryPath = [], DefaultFormat = ''markdown'',
                OutputDir = ''.''\<rparr>,
      sa_prof = Some \<lparr>Name = ''dev'', pr_DefaultFormat = ''markdown'', RecordCommands = True,
                      pr_OutputDir = ''.'', ShellPluginShell = ''zsh''\<rparr>,
      sa_storeError = None, sa_writeError = None, sa_deleteError = None\<rparr>"

section \<open>Properties of the shell history filter\<close>

lemma classify_eq:
  "classify cmds ts nts =
     (ts @ filter (\<lambda>c. \<not> isHandoffNoise (Raw c) \<and> \<not> IsZero (Timestamp c)) cmds,
      nts @ filter (\<lambda>c. \<not> isHandoffNoise (Raw c) \<and> IsZero (Timestamp c)) cmds)"
  by (induction cmds arbitrary: ts nts) simp_all

lemma inWindow_eq:
  "inWindow cmds start stop res =
     res @ filter (\<lambda>c. start \<le> Timestamp c \<and>
                         (case stop of None \<Rightarrow> True | Some s \<Rightarrow> Timestamp c \<le> s)) cmds"
  by (induction cmds arbitrary: res) (auto simp: Before_def After_def split: option.splits)

lemma skip_baseline:
  "fst (if 0 < b \<and> b < int (length xs) then (drop (nat b) xs, w)
        else if int (length xs) \<le> b then ([], w') else (xs, w)) = drop (nat b) xs"
  by auto

lemma keep_tail:
  "(if n < length ys then drop (length ys - n) ys else ys) = drop (length ys - n) ys"
  by simp

text \<open>
  The commands returned by \<open>filterCommands\<close>: the commands with a timestamp inside
  the window, then the retained tail of the commands without one.
\<close>

lemma filterCommands_fst:
  "fst (filterCommands cmds start stop b w) =
     filter (\<lambda>c. start \<le> Timestamp c \<and>
                   (case stop of None \<Rightarrow> True | Some s \<Rightarrow> Timestamp c \<le> s))
       (filter (\<lambda>c. \<not> isHandoffNoise (Raw c) \<and> \<not> IsZero (Timestamp c)) cmds)
     @ drop (length (drop (nat b)
               (filter (\<lambda>c. \<not> isHandoffNoise (Raw c) \<and> IsZero (Timestamp c)) cmds)) - 50)
         (drop (nat b) (filter (\<lambda>c. \<not> isHandoffNoise (Raw c) \<and> IsZero (Timestamp c)) cmds))"
proof -
  obtain ts nts where c: "classify cmds [] [] = (ts, nts)"
    by (cases "classify cmds [] []")
  then have ts: "ts = filter (\<lambda>c. \<not> isHandoffNoise (Raw c) \<and> \<not> IsZero (Timestamp c)) cmds"
    and nts: "nts = filter (\<lambda>c. \<not> isHandoffNoise (Raw c) \<and> IsZero (Timestamp c)) cmds"
    by (simp_all add: classify_eq)
  obtain fresh w1 where f:
    "(if 0 < b \<and> b < int (length nts) then (drop (nat b) nts, w)
      else if int (length nts) \<le> b then ([], w @ [flushWarning]) else (nts, w)) = (fresh, w1)"
    by (cases "(if 0 < b \<and> b < int (length nts) then (drop (nat b) nts, w)
      else if int (length nts) \<le> b then ([], w @ [flushWarning]) else (nts, w))")
  have fresh: "fresh = drop (nat b) nts"
    using skip_baseline [of b nts w "w @ [flushWarning]"] f by simp
  show ?thesis
    unfolding filterCommands_def c
    apply (simp only: prod.case Let_def f keep_tail)
    apply (simp add: inWindow_eq maxNoTimestampCommands_def fresh ts [symmetric] nts [symmetric])
    done
qed

lemma filterCommands_mem:
  "c \<in> set (fst (filterCommands cmds start stop b w)) \<Longrightarrow>
     c \<in> set cmds \<and> \<not> isHandoffNoise (Raw c)"
  by (auto simp: filterCommands_fst dest!: in_set_dropD)

lemma filterCommands_mem_timestamped:
  "\<not> IsZero (Timestamp c) \<Longrightarrow>
     c \<in> set (fst (filterCommands cmds start stop b w)) \<longleftrightarrow>
       c \<in> set cmds \<and> \<not> isHandoffNoise (Raw c) \<and> start \<le> Timestamp c \<and>
       (case stop of None \<Rightarrow> True | Some s \<Rightarrow> Timestamp c \<le> s)"
  by (auto simp: filterCommands_fst dest!: in_set_dropD)

text \<open>
  C3. Against a window with a stop time, a command with a non-zero timestamp that is not
  self-noise is in the output of the filter exactly when its timestamp lies in
  \<open>[start, stop]\<close>, both ends included; a self-noise command is never in the output,
  whatever its timestamp and whatever the window.
\<close>

theorem filterCommands_window:
  "(c \<in> set commands \<and> \<not> IsZero (Timestamp c) \<and> \<not> isHandoffNoise (Raw c) \<longrightarrow>
      (c \<in> set (fst (filterCommands commands start (Some stop) baseline w)) \<longleftrightarrow>
         start \<le> Timestamp c \<and> Timestamp c \<le> stop))
   \<and> (isHandoffNoise (Raw c) \<longrightarrow>
        c \<notin> set (fst (filterCommands commands start stopOpt baseline w)))"
  using filterCommands_mem [of c commands start stopOpt baseline w]
  by (auto simp: filterCommands_mem_timestamped)

theorem filterCommands_window_witness:
  "\<lparr>Raw = ''make test'', Timestamp = Unix 1700000100\<rparr>
      \<in> set (fst (filterCommands
            [\<lparr>Raw = ''ls'', Timestamp = Unix 1699999999\<rparr>,
             \<lparr>Raw = ''make test'', Timestamp = Unix 1700000100\<rparr>,
             \<lparr>Raw = ''./handoff stop'', Timestamp = Unix 1700000200\<rparr>]
            (Unix 1700000000) (Some (Unix 1700000200)) 0 []))
   \<and> \<lparr>Raw = ''./handoff stop'', Timestamp = Unix 1700000200\<rparr>
      \<notin> set (fst (filterCommands
            [\<lparr>Raw = ''ls'', Timestamp = Unix 1699999999\<rparr>,
             \<lparr>Raw = ''make test'', Timestamp = Unix 1700000100\<rparr>,
             \<lparr>Raw = ''./handoff stop'', Timestamp = Unix 1700000200\<rparr>]
            (Unix 1700000000) (Some (Unix 1700000200)) 0 []))"
proof -
  have n1: "\<not> isHandoffNoise ''make test''" by code_simp
  have n2: "isHandoffNoise ''./handoff stop''" by code_simp
  have z: "\<not> IsZero (Unix 1700000100)"
    by (simp add: IsZero_def Unix_def unixToInternal_def)
  have le: "Unix 1700000000 \<le> Unix 1700000100 \<and> Unix 1700000100 \<le> Unix 1700000200"
    by (simp add: Unix_def unixToInternal_def)
  show ?thesis
    using n1 n2 z le
      filterCommands_window [where c = "\<lparr>Raw = ''make test'', Timestamp = Unix 1700000100\<rparr>"
        and commands = "[\<lparr>Raw = ''ls'', Timestamp = Unix 1699999999\<rparr>,
          \<lparr>Raw = ''make test'', Timestamp = Unix 1700000100\<rparr>,
          \<lparr>Raw = ''./handoff stop'', Timestamp = Unix 1700000200\<rparr>]"
        and start = "Unix 1700000000" and stop = "Unix 1700000200" and baseline = 0 and w = "[]"]
      filterCommands_window [where c = "\<lparr>Raw = ''./handoff stop'', Timestamp = Unix 1700000200\<rparr>"
        and commands = "[\<lparr>Raw = ''ls'', Timestamp = Unix 1699999999\<rparr>,
          \<lparr>Raw = ''make test'', Timestamp = Unix 1700000100\<rparr>,
          \<lparr>Raw = ''./handoff stop'', Timestamp = Unix 1700000200\<rparr>]"
        and start = "Unix 1700000000" and stopOpt = "Some (Unix 1700000200)"
        and baseline = 0 and w = "[]"]
    by simp
qed

text \<open>
  C10. With no stop time the window has no upper bound: every command of the input that
  is not self-noise, has a non-zero timestamp and is not before the start of the session
  is kept.
\<close>

theorem filterCommands_no_stop:
  "c \<in> set commands \<Longrightarrow> \<not> isHandoffNoise (Raw c) \<Longrightarrow> \<not> IsZero (Timestamp c) \<Longrightarrow>
     \<not> Before (Timestamp c) start \<Longrightarrow>
     c \<in> set (fst (filterCommands commands start None baseline w))"
  by (simp add: filterCommands_mem_timestamped Before_def)

theorem filterCommands_no_stop_witness:
  "\<lparr>Raw = ''make test'', Timestamp = Unix 9000000000\<rparr>
      \<in> set (fst (filterCommands
            [\<lparr>Raw = ''ls'', Timestamp = Unix 1699999999\<rparr>,
             \<lparr>Raw = ''make test'', Timestamp = Unix 9000000000\<rparr>]
            (Unix 1700000000) None 0 []))"
proof -
  have n: "\<not> isHandoffNoise (Raw \<lparr>Raw = ''make test'', Timestamp = Unix 9000000000\<rparr>)"
    by code_simp
  have z: "\<not> IsZero (Timestamp \<lparr>Raw = ''make test'', Timestamp = Unix 9000000000\<rparr>)"
    by (simp add: IsZero_def Unix_def unixToInternal_def)
  have b: "\<not> Before (Timestamp \<lparr>Raw = ''make test'', Timestamp = Unix 9000000000\<rparr>)
             (Unix 1700000000)"
    by (simp add: Before_def Unix_def unixToInternal_def)
  show ?thesis
    by (rule filterCommands_no_stop [OF _ n z b]) simp
qed

lemma filterCommands_snd:
  "snd (filterCommands cmds start stop b w) =
     (let nts = filter (\<lambda>c. \<not> isHandoffNoise (Raw c) \<and> IsZero (Timestamp c)) cmds;
          fresh = drop (length (drop (nat b) nts) - 50) (drop (nat b) nts) in
      w @ (if nts \<noteq> [] \<and> int (length nts) \<le> b then [flushWarning] else [])
        @ (if fresh \<noteq> [] then [noTimestampWarning (length fresh)] else []))"
proof -
  obtain ts nts where c: "classify cmds [] [] = (ts, nts)"
    by (cases "classify cmds [] []")
  then have nts: "nts = filter (\<lambda>c. \<not> isHandoffNoise (Raw c) \<and> IsZero (Timestamp c)) cmds"
    by (simp_all add: classify_eq)
  obtain fresh w1 where f:
    "(if 0 < b \<and> b < int (length nts) then (drop (nat b) nts, w)
      else if int (length nts) \<le> b then ([], w @ [flushWarning]) else (nts, w)) = (fresh, w1)"
    by (cases "(if 0 < b \<and> b < int (length nts) then (drop (nat b) nts, w)
      else if int (length nts) \<le> b then ([], w @ [flushWarning]) else (nts, w))")
  have fresh: "fresh = drop (nat b) nts"
    using skip_baseline [of b nts w "w @ [flushWarning]"] f by simp
  have w1: "w1 = w @ (if int (length nts) \<le> b then [flushWarning] else [])"
    using f by (auto split: if_splits)
  show ?thesis
    unfolding filterCommands_def c
    apply (simp only: prod.case Let_def f keep_tail)
    apply (simp add: maxNoTimestampCommands_def fresh w1 nts [symmetric])
    done
qed

lemma filterCommands_zero_part:
  "filter (\<lambda>c. IsZero (Timestamp c)) (fst (filterCommands cmds start stop b w)) =
     drop (length (drop (nat b)
             (filter (\<lambda>c. \<not> isHandoffNoise (Raw c) \<and> IsZero (Timestamp c)) cmds)) - 50)
       (drop (nat b) (filter (\<lambda>c. \<not> isHandoffNoise (Raw c) \<and> IsZero (Timestamp c)) cmds))"
proof -
  define nts where "nts = filter (\<lambda>c. \<not> isHandoffNoise (Raw c) \<and> IsZero (Timestamp c)) cmds"
  define ts where "ts = filter (\<lambda>c. \<not> isHandoffNoise (Raw c) \<and> \<not> IsZero (Timestamp c)) cmds"
  have z: "\<forall>c \<in> set (drop n (drop m nts)). IsZero (Timestamp c)" for n m
    unfolding nts_def by (auto dest!: in_set_dropD)
  have nz: "\<forall>c \<in> set (filter P ts). \<not> IsZero (Timestamp c)" for P
    unfolding ts_def by auto
  have 1: "filter (\<lambda>c. IsZero (Timestamp c)) (drop n (drop m nts)) = drop n (drop m nts)" for n m
    using z [of n m] by (simp only: filter_id_conv)
  have 2: "filter (\<lambda>c. IsZero (Timestamp c)) (filter P ts) = []" for P
    using nz [of P] by (simp only: filter_empty_conv) 
  show ?thesis
    unfolding filterCommands_fst nts_def [symmetric] ts_def [symmetric]
    by (simp only: filter_append 1 2 append_Nil)
qed
lemma parse_historyAtStart: "parseZshHistory historyAtStart t
   = ([\<lparr>Raw = ''handoff start'', Timestamp = 0\<rparr>], None)"
  by (simp add: historyAtStart_def parseZshHistory_def scanLines_def MaxScanTokenSize_def dropCR_def
    zshExtended_def HasPrefix_def zeroTime_def)

lemma parse_historyAtStop: "parseZshHistory historyAtStop t
   = ([\<lparr>Raw = ''handoff start'', Timestamp = 0\<rparr>, \<lparr>Raw = ''ls'', Timestamp = 0\<rparr>], None)"
  by (simp add: historyAtStop_def parseZshHistory_def scanLines_def MaxScanTokenSize_def dropCR_def
    zshExtended_def HasPrefix_def zeroTime_def)

lemma noise_handoff_start: "isHandoffNoise ''handoff start'' \<and> \<not> isHandoffNoise ''ls''"
  by code_simp

lemma filter_noise_miscount:
  "filterCommands
     [\<lparr>Raw = ''handoff start'', Timestamp = 0\<rparr>, \<lparr>Raw = ''ls'', Timestamp = 0\<rparr>]
     start stop 1 [] = ([], [flushWarning])"
proof -
  have "fst (filterCommands
     [\<lparr>Raw = ''handoff start'', Timestamp = 0\<rparr>, \<lparr>Raw = ''ls'', Timestamp = 0\<rparr>]
     start stop 1 []) = []"
    using noise_handoff_start by (simp add: filterCommands_fst IsZero_def)
  moreover have "snd (filterCommands
     [\<lparr>Raw = ''handoff start'', Timestamp = 0\<rparr>, \<lparr>Raw = ''ls'', Timestamp = 0\<rparr>]
     start stop 1 []) = [flushWarning]"
    using noise_handoff_start by (simp add: filterCommands_snd IsZero_def)
  ultimately show ?thesis by (simp add: prod_eq_iff)
qed

text \<open>
  On a list of commands without timestamp that holds no self-noise entry, the filter
  does what its documentation says: the first \<open>baseline\<close> entries are skipped, the
  rest is cut to its last 50 entries by position, and nothing is reordered.
\<close>

lemma filterCommands_no_timestamp_clean:
  assumes "\<forall>c \<in> set commands. IsZero (Timestamp c) \<and> \<not> isHandoffNoise (Raw c)"
  shows "fst (filterCommands commands start stop baseline w) =
           drop (length (drop (nat baseline) commands) - 50) (drop (nat baseline) commands)
         \<and> subseq (fst (filterCommands commands start stop baseline w)) commands"
proof -
  have a: "filter (\<lambda>c. \<not> isHandoffNoise (Raw c) \<and> \<not> IsZero (Timestamp c)) commands = []"
    using assms by (simp add: filter_empty_conv)
  have b: "filter (\<lambda>c. \<not> isHandoffNoise (Raw c) \<and> IsZero (Timestamp c)) commands = commands"
    using assms by (simp only: filter_id_conv) blast
  have eq: "fst (filterCommands commands start stop baseline w) =
           drop (length (drop (nat baseline) commands) - 50) (drop (nat baseline) commands)"
    by (simp add: filterCommands_fst a b)
  have "subseq (drop n (drop m commands)) commands" for n m
    by (meson suffix_drop suffix_imp_subseq subseq_order.order_trans)
  with eq show ?thesis by simp
qed

section \<open>Properties of the shell history collector\<close>






lemma collectFromHistory_parsed:
  assumes "env_Open env (if HistoryPath sc = [] then defaultHistoryPath env (Base (env_SHELL env))
                         else HistoryPath sc) = Inr f"
    and "historyParser (Base (env_SHELL env)) f (StartTime sess) = (commands, None)"
  shows "cr_Commands (collectFromHistory env sc sess) =
           fst (filterCommands commands (StartTime sess) (StopTime sess) (HistoryBaselineCount sess) [])"
    and "cr_Warnings (collectFromHistory env sc sess) =
           snd (filterCommands commands (StartTime sess) (StopTime sess) (HistoryBaselineCount sess) [])"
  using assms
  by (simp_all add: collectFromHistory_def Let_def emptyResult_def split: prod.splits)



lemma Base_usr_bin_zsh: "Base ''/usr/bin/zsh'' = ''zsh''"
  by (simp add: Base_def)

text \<open>
  C4 fails on the code, against the documentation of the code itself.
  \<open>filterCommands\<close> is documented to skip ``the first baselineCount entries (commands
  that existed before the session started)'', and \<open>SnapshotHistoryBaseline\<close> counts
  every command of the history file, self-noise included; but the skip is counted off
  the list from which the self-noise entries have been removed, so it is off by the
  number of self-noise entries. With the history \<open>handoff start\<close> when the session
  starts, the baseline is 1; with \<open>handoff start\<close>, \<open>ls\<close> when it stops, the claim
  and the documentation keep \<open>ls\<close>, the command typed during the session. The filter
  returns no command, and the warning that the history was not flushed, although the
  history has grown past the baseline.
\<close>

theorem filterCommands_noise_miscount:
  "filterCommands
     [\<lparr>Raw = ''handoff start'', Timestamp = 0\<rparr>, \<lparr>Raw = ''ls'', Timestamp = 0\<rparr>]
     (Unix 1700000000) (Some (Unix 1700000900)) 1 [] = ([], [flushWarning])
   \<and> drop (length (drop 1
         [\<lparr>Raw = ''handoff start'', Timestamp = 0\<rparr>, \<lparr>Raw = ''ls'', Timestamp = 0\<rparr>]) - 50)
       (drop 1 [\<lparr>Raw = ''handoff start'', Timestamp = 0\<rparr>, \<lparr>Raw = ''ls'', Timestamp = 0\<rparr>])
     = [\<lparr>Raw = ''ls'', Timestamp = 0\<rparr>]
   \<and> SnapshotHistoryBaseline (exampleEnv ''/usr/bin/zsh'' historyAtStart) [] = 1
   \<and> cr_Commands (collectFromHistory (exampleEnv ''/usr/bin/zsh'' historyAtStop)
         \<lparr>HistoryPath = [], UsePluginLog = False\<rparr> (exampleSession 1)) = []
   \<and> cr_Warnings (collectFromHistory (exampleEnv ''/usr/bin/zsh'' historyAtStop)
         \<lparr>HistoryPath = [], UsePluginLog = False\<rparr> (exampleSession 1)) = [flushWarning]"
proof -
  have o: "env_Open (exampleEnv ''/usr/bin/zsh'' historyAtStop)
     (if HistoryPath \<lparr>HistoryPath = [], UsePluginLog = False\<rparr> = []
      then defaultHistoryPath (exampleEnv ''/usr/bin/zsh'' historyAtStop)
             (Base (env_SHELL (exampleEnv ''/usr/bin/zsh'' historyAtStop)))
      else HistoryPath \<lparr>HistoryPath = [], UsePluginLog = False\<rparr>) = Inr historyAtStop"
    by (simp add: exampleEnv_def Base_usr_bin_zsh defaultHistoryPath_def exampleJoin_def)
  have p: "historyParser (Base (env_SHELL (exampleEnv ''/usr/bin/zsh'' historyAtStop))) historyAtStop
       (StartTime (exampleSession 1))
     = ([\<lparr>Raw = ''handoff start'', Timestamp = 0\<rparr>, \<lparr>Raw = ''ls'', Timestamp = 0\<rparr>], None)"
    by (simp add: exampleEnv_def Base_usr_bin_zsh historyParser_def parse_historyAtStop)
  have f: "filterCommands
     [\<lparr>Raw = ''handoff start'', Timestamp = 0\<rparr>, \<lparr>Raw = ''ls'', Timestamp = 0\<rparr>]
     (StartTime (exampleSession 1)) (StopTime (exampleSession 1))
     (HistoryBaselineCount (exampleSession 1)) [] = ([], [flushWarning])"
    by (simp add: exampleSession_def filter_noise_miscount)
  have c: "cr_Commands (collectFromHistory (exampleEnv ''/usr/bin/zsh'' historyAtStop)
         \<lparr>HistoryPath = [], UsePluginLog = False\<rparr> (exampleSession 1)) = []"
    unfolding collectFromHistory_parsed(1) [OF o p] f by simp
  have w: "cr_Warnings (collectFromHistory (exampleEnv ''/usr/bin/zsh'' historyAtStop)
         \<lparr>HistoryPath = [], UsePluginLog = False\<rparr> (exampleSession 1)) = [flushWarning]"
    unfolding collectFromHistory_parsed(2) [OF o p] f by simp
  have s: "SnapshotHistoryBaseline (exampleEnv ''/usr/bin/zsh'' historyAtStart) [] = 1"
    by (simp add: SnapshotHistoryBaseline_def exampleEnv_def exampleJoin_def
        defaultHistoryPath_def historyParser_def parse_historyAtStart Base_usr_bin_zsh)
  show ?thesis
    using filter_noise_miscount [of "Unix 1700000000" "Some (Unix 1700000900)"] c w s by simp
qed


subsection \<open>Decimal printing and parsing\<close>

lemma digit_cases:
  assumes "d < (10::nat)"
  shows "d = 0 \<or> d = 1 \<or> d = 2 \<or> d = 3 \<or> d = 4 \<or> d = 5 \<or> d = 6 \<or> d = 7 \<or> d = 8 \<or> d = 9"
  using assms by arith

lemma digit_char:
  assumes "d < (10::nat)"
  shows "isDigit (''0123456789'' ! d)" and "digitVal (''0123456789'' ! d) = int d"
    and "''0123456789'' ! d \<noteq> CHR ''-''" and "''0123456789'' ! d \<noteq> CHR ''+''"
    and "\<not> isSpace (''0123456789'' ! d)"
  using digit_cases [OF assms]
  by (elim disjE; simp add: isDigit_def digitVal_def isSpace_def)+

lemma itoa_nonempty: "itoa n \<noteq> []"
  by (subst itoa.simps) simp

lemma itoa_digits: "list_all isDigit (itoa n)"
proof (induction n rule: itoa.induct)
  case (1 n)
  show ?case
  proof (cases "n < 10")
    case True
    then show ?thesis by (subst itoa.simps) (simp add: digit_char(1))
  next
    case False
    then have "list_all isDigit (itoa (n div 10))" using 1 by simp
    moreover have "isDigit (''0123456789'' ! (n mod 10))" by (rule digit_char(1)) simp
    ultimately show ?thesis using False by (subst itoa.simps) simp
  qed
qed

lemma digitsVal_append: "digitsVal acc (xs @ ys) = digitsVal (digitsVal acc xs) ys"
  by (induction xs arbitrary: acc) simp_all

lemma digitsVal_itoa: "digitsVal 0 (itoa n) = int n"
proof (induction n rule: itoa.induct)
  case (1 n)
  show ?case
  proof (cases "n < 10")
    case True
    then show ?thesis by (subst itoa.simps) (simp add: digit_char(2))
  next
    case False
    then have ih: "digitsVal 0 (itoa (n div 10)) = int (n div 10)" using 1 by simp
    have d: "digitVal (''0123456789'' ! (n mod 10)) = int (n mod 10)"
      by (rule digit_char(2)) simp
    have "digitsVal 0 (itoa n) = int (n div 10) * 10 + int (n mod 10)"
      using False by (subst itoa.simps) (simp add: digitsVal_append ih d)
    also have "\<dots> = int n"
    proof -
      have "n div 10 * 10 + n mod 10 = n" by simp
      then have "int (n div 10 * 10 + n mod 10) = int n" by (rule arg_cong)
      then show ?thesis by (simp only: of_nat_add of_nat_mult of_nat_numeral)
    qed
    finally show ?thesis .
  qed
qed

lemma length_itoa: "0 < k \<Longrightarrow> n < 10 ^ k \<Longrightarrow> length (itoa n) \<le> k"
proof (induction k arbitrary: n)
  case 0
  then show ?case by simp
next
  case (Suc k)
  show ?case
  proof (cases "n < 10")
    case True
    then show ?thesis by (subst itoa.simps) simp
  next
    case False
    then have k: "0 < k" using Suc.prems by (cases k) auto
    have "n div 10 < 10 ^ k" using Suc.prems by (simp add: less_mult_imp_div_less mult.commute)
    then have "length (itoa (n div 10)) \<le> k" using Suc.IH k by simp
    then show ?thesis using False by (subst itoa.simps) simp
  qed
qed

lemma length_itoa_epoch: "epochOK n \<Longrightarrow> length (itoa n) \<le> 19"
  by (rule length_itoa) (simp_all add: epochOK_def)

lemma hd_itoa: "\<exists>c cs. itoa n = c # cs \<and> isDigit c \<and> c \<noteq> CHR ''-'' \<and> c \<noteq> CHR ''+''"
proof -
  obtain c cs where e: "itoa n = c # cs" using itoa_nonempty [of n] by (cases "itoa n") auto
  have "isDigit c" using itoa_digits [of n] e by simp
  then show ?thesis using e by (auto simp: isDigit_def)
qed

lemma ParseInt_itoa: "epochOK n \<Longrightarrow> ParseInt (itoa n) = Some (int n)"
proof -
  assume ok: "epochOK n"
  obtain c cs where e: "itoa n = c # cs" "c \<noteq> CHR ''-''" "c \<noteq> CHR ''+''"
    using hd_itoa [of n] by blast
  have "parseDigits (c # cs) = Some (int n)"
    using itoa_digits [of n] digitsVal_itoa [of n] unfolding e(1) parseDigits_def by simp
  then show ?thesis
    using ok e unfolding ParseInt_def epochOK_def by simp
qed


lemma itoa_chars: "c \<in> set (itoa n) \<Longrightarrow> isDigit c"
  using itoa_digits [of n] by (simp add: list_all_iff)

lemma isDigit_neq:
  "isDigit c \<Longrightarrow> c \<noteq> CHR 0x0A \<and> c \<noteq> CHR 0x0D \<and> c \<noteq> CHR '';'' \<and> c \<noteq> CHR '':'' \<and> \<not> isSpace c"
  by (auto simp: isDigit_def isSpace_def)

lemma last_itoa: "isDigit (last (itoa n))"
  using itoa_chars [of "last (itoa n)" n] itoa_nonempty [of n] by simp

subsection \<open>Scanning a file of well-formed lines\<close>

lemma rawLines_line:
  "CHR 0x0A \<notin> set l \<Longrightarrow> rawLines cur (l @ CHR 0x0A # rest) = (cur @ l) # rawLines [] rest"
  by (induction l arbitrary: cur) auto

lemma rawLines_unlines:
  "\<forall>l \<in> set ls. CHR 0x0A \<notin> set l \<Longrightarrow> rawLines [] (unlines ls) = ls"
proof (induction ls)
  case Nil
  then show ?case by (simp add: unlines_def)
next
  case (Cons l ls)
  then have "rawLines [] (unlines ls) = ls" by simp
  moreover have "unlines (l # ls) = l @ CHR 0x0A # unlines ls" by (simp add: unlines_def)
  ultimately show ?case using Cons.prems by (simp add: rawLines_line)
qed

lemma deliver_ok:
  "\<forall>l \<in> set ls. length l < MaxScanTokenSize \<and> dropCR l = l \<Longrightarrow> deliver ls = (ls, None)"
  by (induction ls) auto

lemma lineOK_dropCR: "lineOK l \<Longrightarrow> dropCR l = l"
  by (auto simp: lineOK_def dropCR_def)

lemma scanLines_unlines: "list_all lineOK ls \<Longrightarrow> scanLines (unlines ls) = (ls, None)"
proof -
  assume a: "list_all lineOK ls"
  then have "\<forall>l \<in> set ls. CHR 0x0A \<notin> set l" by (auto simp: list_all_iff lineOK_def)
  then have r: "rawLines [] (unlines ls) = ls" by (rule rawLines_unlines)
  have "\<forall>l \<in> set ls. length l < MaxScanTokenSize \<and> dropCR l = l"
    using a by (auto simp: list_all_iff lineOK_dropCR) (simp add: lineOK_def)
  then show ?thesis unfolding scanLines_def r by (rule deliver_ok)
qed

lemma lineOK_epoch_line:
  assumes "epochOK n" and "CHR 0x0A \<notin> set pre" and "length pre < 100"
  shows "lineOK (pre @ itoa n)"
proof -
  have "CHR 0x0A \<notin> set (itoa n)" using itoa_chars isDigit_neq by blast
  moreover have "length (pre @ itoa n) < MaxScanTokenSize"
    using length_itoa_epoch [OF assms(1)] assms(3) by (simp add: MaxScanTokenSize_def)
  moreover have "last (pre @ itoa n) \<noteq> CHR 0x0D"
    using last_itoa [of n] isDigit_neq itoa_nonempty [of n] by auto
  ultimately show ?thesis using assms(2) by (simp add: lineOK_def)
qed

subsection \<open>bash\<close>

lemma bashLoop_entry:
  assumes "bashEntryOK e"
  shows "bashLoop (bashLines e @ rest) zeroTime acc = bashLoop rest zeroTime (acc @ [bashCommand e])"
proof (cases e)
  case (Pair cmd ts)
  show ?thesis
  proof (cases ts)
    case None
    then show ?thesis using assms Pair by simp
  next
    case (Some epoch)
    have p: "ParseInt (itoa epoch) = Some (int epoch)"
      using assms Pair Some by (simp add: ParseInt_itoa)
    show ?thesis using assms Pair Some p
      by (simp add: HasPrefix_def TrimPrefix_def)
  qed
qed

lemma bashLoop_entries:
  "list_all bashEntryOK es \<Longrightarrow>
     bashLoop (concat (map bashLines es)) zeroTime acc = acc @ map bashCommand es"
  by (induction es arbitrary: acc) (simp_all add: bashLoop_entry)

lemma bashLines_ok: "bashEntryOK e \<Longrightarrow> list_all lineOK (bashLines e)"
proof (cases e)
  case (Pair cmd ts)
  assume "bashEntryOK e"
  then show ?thesis using Pair lineOK_epoch_line [of _ "''#''"]
    by (cases ts) auto
qed

lemma parseBashHistory_wellformed:
  assumes "list_all bashEntryOK es"
  shows "parseBashHistory (unlines (concat (map bashLines es))) since = (map bashCommand es, None)"
proof -
  have "list_all lineOK (concat (map bashLines es))"
    using assms bashLines_ok by (auto simp: list_all_iff)
  then show ?thesis
    using assms by (simp add: parseBashHistory_def scanLines_unlines bashLoop_entries)
qed


subsection \<open>zsh\<close>

lemma Index_first_char:
  "x \<notin> set pre \<Longrightarrow> Index (pre @ x # rest) [x] = Some (length pre)"
  by (induction pre) auto

lemma zshExtended_entry:
  assumes "epochOK epoch"
  shows "zshExtended ('': '' @ itoa epoch @ '':'' @ itoa elapsed @ '';'' @ cmd)
           = Some \<lparr>Raw = cmd, Timestamp = Unix (int epoch)\<rparr>"
proof -
  define tp where "tp = itoa epoch @ '':'' @ itoa elapsed"
  have semi_notin: "CHR '';'' \<notin> set tp"
    unfolding tp_def using itoa_chars isDigit_neq by auto
  have colon_notin: "CHR '':'' \<notin> set (itoa epoch)"
    using itoa_chars isDigit_neq by blast
  have semi: "Index (tp @ CHR '';'' # cmd) '';'' = Some (length tp)"
    using semi_notin by (rule Index_first_char)
  have colon: "Index tp '':'' = Some (length (itoa epoch))"
    unfolding tp_def using Index_first_char [OF colon_notin, of "itoa elapsed"] by simp
  have pos: "0 < length tp" "0 < length (itoa epoch)"
    using itoa_nonempty [of epoch] by (simp_all add: tp_def)
  have tk: "take (length (itoa epoch)) tp = itoa epoch"
    by (simp add: tp_def)
  have line: "'': '' @ itoa epoch @ '':'' @ itoa elapsed @ '';'' @ cmd = '': '' @ (tp @ CHR '';'' # cmd)"
    by (simp add: tp_def)
  show ?thesis
    unfolding line zshExtended_def
    using semi colon pos tk ParseInt_itoa [OF assms]
    by (simp add: HasPrefix_def Let_def)
qed

lemma zshLoop_entries:
  "list_all zshEntryOK es \<Longrightarrow>
     zshLoop (concat (map zshLines es)) acc = acc @ map zshCommand es"
proof (induction es arbitrary: acc)
  case Nil
  then show ?case by simp
next
  case (Cons e es)
  obtain cmd epoch elapsed where e: "e = (cmd, epoch, elapsed)" by (cases e)
  have ok: "epochOK epoch" using Cons.prems e by simp
  have "zshLoop (concat (map zshLines (e # es))) acc =
          zshLoop (concat (map zshLines es)) (acc @ [zshCommand e])"
    unfolding e using zshExtended_entry [OF ok, of elapsed cmd] by simp
  then show ?case using Cons by simp
qed

lemma zshLines_ok: "zshEntryOK e \<Longrightarrow> list_all lineOK (zshLines e)"
  by (cases e) simp

lemma parseZshHistory_wellformed:
  assumes "list_all zshEntryOK es"
  shows "parseZshHistory (unlines (concat (map zshLines es))) since = (map zshCommand es, None)"
proof -
  have "list_all lineOK (concat (map zshLines es))"
    using assms zshLines_ok by (auto simp: list_all_iff)
  then show ?thesis
    using assms by (simp add: parseZshHistory_def scanLines_unlines zshLoop_entries)
qed

subsection \<open>fish\<close>

lemma TrimSpace_itoa: "TrimSpace (itoa n) = itoa n"
proof -
  obtain c cs where e: "itoa n = c # cs" "isDigit c" using hd_itoa [of n] by blast
  then have 1: "dropWhile isSpace (itoa n) = itoa n" using isDigit_neq by simp
  have "\<not> isSpace (last (itoa n))" using last_itoa [of n] isDigit_neq by simp
  then have 2: "dropWhile isSpace (rev (itoa n)) = rev (itoa n)"
    using itoa_nonempty [of n] by (cases "rev (itoa n)") (auto simp: last_rev)
  show ?thesis by (simp add: TrimSpace_def 1 2)
qed

lemma fishLoop_entry:
  assumes "fishEntryOK (cmd, epoch)"
  shows "fishLoop (fishLines (cmd, epoch) @ rest) cc ct inEntry acc =
           fishLoop rest cmd (Unix (int epoch)) True
             (if inEntry \<and> cc \<noteq> [] then acc @ [\<lparr>Raw = cc, Timestamp = ct\<rparr>] else acc)"
  using assms ParseInt_itoa [of epoch]
  by (simp add: HasPrefix_def TrimPrefix_def TrimSpace_itoa)

lemma fishLoop_entries:
  "list_all fishEntryOK es \<Longrightarrow> cc \<noteq> [] \<Longrightarrow>
     fishLoop (concat (map fishLines es)) cc ct True acc =
       acc @ \<lparr>Raw = cc, Timestamp = ct\<rparr> # map fishCommand es"
proof (induction es arbitrary: cc ct acc)
  case Nil
  then show ?case by simp
next
  case (Cons e es)
  obtain cmd epoch where e: "e = (cmd, epoch)" by (cases e)
  have ok: "fishEntryOK (cmd, epoch)" and ne: "cmd \<noteq> []" using Cons.prems e by simp_all
  have "fishLoop (concat (map fishLines (e # es))) cc ct True acc =
          fishLoop (concat (map fishLines es)) cmd (Unix (int epoch)) True
            (acc @ [\<lparr>Raw = cc, Timestamp = ct\<rparr>])"
    unfolding e using fishLoop_entry [OF ok, of "concat (map fishLines es)" cc ct True acc] Cons.prems(2)
    by simp
  also have "\<dots> = (acc @ [\<lparr>Raw = cc, Timestamp = ct\<rparr>]) @
                     \<lparr>Raw = cmd, Timestamp = Unix (int epoch)\<rparr> # map fishCommand es"
    using Cons.IH [OF _ ne] Cons.prems(1) by simp
  finally show ?case by (simp add: e)
qed

lemma fishLoop_start:
  assumes "list_all fishEntryOK es"
  shows "fishLoop (concat (map fishLines es)) [] zeroTime False [] = map fishCommand es"
proof (cases es)
  case Nil
  then show ?thesis by simp
next
  case (Cons e es')
  obtain cmd epoch where e: "e = (cmd, epoch)" by (cases e)
  have ok: "fishEntryOK (cmd, epoch)" and ne: "cmd \<noteq> []" and rest: "list_all fishEntryOK es'"
    using assms Cons e by simp_all
  have "fishLoop (concat (map fishLines es)) [] zeroTime False [] =
          fishLoop (concat (map fishLines es')) cmd (Unix (int epoch)) True []"
    unfolding Cons e
    using fishLoop_entry [OF ok, of "concat (map fishLines es')" "[]" zeroTime False "[]"] by simp
  then show ?thesis
    using fishLoop_entries [OF rest ne] by (simp add: Cons e)
qed

lemma fishLines_ok: "fishEntryOK e \<Longrightarrow> list_all lineOK (fishLines e)"
proof (cases e)
  case (Pair cmd epoch)
  assume "fishEntryOK e"
  then show ?thesis using Pair lineOK_epoch_line [of epoch "''  when: ''"] by simp
qed

lemma parseFishHistory_wellformed:
  assumes "list_all fishEntryOK es"
  shows "parseFishHistory (unlines (concat (map fishLines es))) since = (map fishCommand es, None)"
proof -
  have "list_all lineOK (concat (map fishLines es))"
    using assms fishLines_ok by (auto simp: list_all_iff)
  then show ?thesis
    using assms by (simp add: parseFishHistory_def scanLines_unlines fishLoop_start)
qed


subsection \<open>Order of the collected commands\<close>

lemma filterCommands_nonzero_part:
  "filter (\<lambda>c. \<not> IsZero (Timestamp c)) (fst (filterCommands cmds start stop b w)) =
     filter (\<lambda>c. start \<le> Timestamp c \<and>
                   (case stop of None \<Rightarrow> True | Some s \<Rightarrow> Timestamp c \<le> s))
       (filter (\<lambda>c. \<not> isHandoffNoise (Raw c) \<and> \<not> IsZero (Timestamp c)) cmds)"
proof -
  define nts where "nts = filter (\<lambda>c. \<not> isHandoffNoise (Raw c) \<and> IsZero (Timestamp c)) cmds"
  define ts where "ts = filter (\<lambda>c. \<not> isHandoffNoise (Raw c) \<and> \<not> IsZero (Timestamp c)) cmds"
  have z: "\<forall>c \<in> set (drop n (drop m nts)). \<not> \<not> IsZero (Timestamp c)" for n m
    unfolding nts_def by (auto dest!: in_set_dropD)
  have nz: "\<forall>c \<in> set (filter P ts). \<not> IsZero (Timestamp c)" for P
    unfolding ts_def by auto
  have 1: "filter (\<lambda>c. \<not> IsZero (Timestamp c)) (drop n (drop m nts)) = []" for n m
    using z [of n m] by (simp only: filter_empty_conv)
  have 2: "filter (\<lambda>c. \<not> IsZero (Timestamp c)) (filter P ts) = filter P ts" for P
    using nz [of P] by (simp only: filter_id_conv)
  show ?thesis
    unfolding filterCommands_fst nts_def [symmetric] ts_def [symmetric]
    by (simp only: filter_append 1 2 append_Nil2)
qed

lemma filterCommands_split:
  "fst (filterCommands cmds start stop b w) =
     filter (\<lambda>c. \<not> IsZero (Timestamp c)) (fst (filterCommands cmds start stop b w)) @
     filter (\<lambda>c. IsZero (Timestamp c)) (fst (filterCommands cmds start stop b w))"
  unfolding filterCommands_nonzero_part filterCommands_zero_part
  by (rule filterCommands_fst)

lemma filterCommands_parts_subseq:
  "subseq (filter (\<lambda>c. \<not> IsZero (Timestamp c)) (fst (filterCommands cmds start stop b w))) cmds"
  "subseq (filter (\<lambda>c. IsZero (Timestamp c)) (fst (filterCommands cmds start stop b w))) cmds"
proof -
  show "subseq (filter (\<lambda>c. \<not> IsZero (Timestamp c)) (fst (filterCommands cmds start stop b w))) cmds"
    unfolding filterCommands_nonzero_part
    by (meson subseq_filter_left subseq_order.order_trans)
  show "subseq (filter (\<lambda>c. IsZero (Timestamp c)) (fst (filterCommands cmds start stop b w))) cmds"
    unfolding filterCommands_zero_part
    by (meson suffix_drop suffix_imp_subseq subseq_filter_left subseq_order.order_trans)
qed

lemma filterCommands_uniform_subseq:
  assumes "(\<forall>c \<in> set cmds. IsZero (Timestamp c)) \<or> (\<forall>c \<in> set cmds. \<not> IsZero (Timestamp c))"
  shows "subseq (fst (filterCommands cmds start stop b w)) cmds"
proof -
  have m: "set (fst (filterCommands cmds start stop b w)) \<subseteq> set cmds"
    using filterCommands_mem by blast
  from assms show ?thesis
  proof
    assume "\<forall>c \<in> set cmds. IsZero (Timestamp c)"
    then have "\<forall>c \<in> set (fst (filterCommands cmds start stop b w)). IsZero (Timestamp c)"
      using m by blast
    then have "filter (\<lambda>c. IsZero (Timestamp c)) (fst (filterCommands cmds start stop b w))
                 = fst (filterCommands cmds start stop b w)"
      by (simp only: filter_id_conv)
    then show ?thesis using filterCommands_parts_subseq(2) [of cmds start stop b w] by simp
  next
    assume "\<forall>c \<in> set cmds. \<not> IsZero (Timestamp c)"
    then have "\<forall>c \<in> set (fst (filterCommands cmds start stop b w)). \<not> IsZero (Timestamp c)"
      using m by blast
    then have "filter (\<lambda>c. \<not> IsZero (Timestamp c)) (fst (filterCommands cmds start stop b w))
                 = fst (filterCommands cmds start stop b w)"
      by (simp only: filter_id_conv)
    then show ?thesis using filterCommands_parts_subseq(1) [of cmds start stop b w] by simp
  qed
qed

lemma parse_mixedZshHistory:
  "parseZshHistory mixedZshHistory t =
     ([\<lparr>Raw = ''echo a'', Timestamp = zeroTime\<rparr>,
       \<lparr>Raw = ''echo b'', Timestamp = Unix 1700000100\<rparr>], None)"
  by (simp add: mixedZshHistory_def unlines_def parseZshHistory_def scanLines_def
      MaxScanTokenSize_def dropCR_def zshExtended_def HasPrefix_def
      ParseInt_def parseDigits_def isDigit_def digitVal_def)

lemma filter_mixed:
  "fst (filterCommands
         [\<lparr>Raw = ''echo a'', Timestamp = zeroTime\<rparr>,
          \<lparr>Raw = ''echo b'', Timestamp = Unix 1700000100\<rparr>]
         (Unix 1700000000) (Some (Unix 1700000900)) 0 [])
   = [\<lparr>Raw = ''echo b'', Timestamp = Unix 1700000100\<rparr>,
      \<lparr>Raw = ''echo a'', Timestamp = zeroTime\<rparr>]"
proof -
  have n: "\<not> isHandoffNoise ''echo a''" "\<not> isHandoffNoise ''echo b''" by code_simp+
  have t: "Unix 1700000100 \<noteq> 0" "Unix 1700000000 \<le> Unix 1700000100"
    "Unix 1700000100 \<le> Unix 1700000900"
    by (simp_all add: Unix_def unixToInternal_def)
  show ?thesis
    using n t by (simp add: filterCommands_fst IsZero_def zeroTime_def)
qed

text \<open>
  C8, as stated, at a zsh history whose first line is a plain command and whose second
  line is in the extended form: the parser meets \<open>echo a\<close> before \<open>echo b\<close>, the
  collected list has \<open>echo b\<close> before \<open>echo a\<close>.
\<close>

theorem collectFromHistory_order_counterexample:
  "fst (parseZshHistory mixedZshHistory (Unix 1700000000)) =
     [\<lparr>Raw = ''echo a'', Timestamp = zeroTime\<rparr>,
      \<lparr>Raw = ''echo b'', Timestamp = Unix 1700000100\<rparr>]
   \<and> cr_Commands (collectFromHistory (exampleEnv ''/usr/bin/zsh'' mixedZshHistory)
         \<lparr>HistoryPath = [], UsePluginLog = False\<rparr> (exampleSession 0)) =
     [\<lparr>Raw = ''echo b'', Timestamp = Unix 1700000100\<rparr>,
      \<lparr>Raw = ''echo a'', Timestamp = zeroTime\<rparr>]"
proof -
  have o: "env_Open (exampleEnv ''/usr/bin/zsh'' mixedZshHistory)
     (if HistoryPath \<lparr>HistoryPath = [], UsePluginLog = False\<rparr> = []
      then defaultHistoryPath (exampleEnv ''/usr/bin/zsh'' mixedZshHistory)
             (Base (env_SHELL (exampleEnv ''/usr/bin/zsh'' mixedZshHistory)))
      else HistoryPath \<lparr>HistoryPath = [], UsePluginLog = False\<rparr>) = Inr mixedZshHistory"
    by (simp add: exampleEnv_def Base_usr_bin_zsh defaultHistoryPath_def exampleJoin_def)
  have p: "historyParser (Base (env_SHELL (exampleEnv ''/usr/bin/zsh'' mixedZshHistory)))
       mixedZshHistory (StartTime (exampleSession 0))
     = ([\<lparr>Raw = ''echo a'', Timestamp = zeroTime\<rparr>,
         \<lparr>Raw = ''echo b'', Timestamp = Unix 1700000100\<rparr>], None)"
    by (simp add: exampleEnv_def Base_usr_bin_zsh historyParser_def parse_mixedZshHistory)
  show ?thesis
    unfolding collectFromHistory_parsed(1) [OF o p] parse_mixedZshHistory
    using filter_mixed by (simp add: exampleSession_def)
qed


text \<open>
  C8, amended. Parsing a well-formed history of each of the three grammars returns
  exactly the encoded commands with their timestamps, in input order and without
  error. The collected list is the kept commands with a timestamp followed by the kept
  commands without one, each part in the order of the input; when all commands carry
  a timestamp, or none does, the whole list is in the order of the input.
\<close>

theorem history_parsers_recover:
  "(list_all bashEntryOK bs \<longrightarrow>
      parseBashHistory (unlines (concat (map bashLines bs))) since = (map bashCommand bs, None))
   \<and> (list_all zshEntryOK zs \<longrightarrow>
      parseZshHistory (unlines (concat (map zshLines zs))) since = (map zshCommand zs, None))
   \<and> (list_all fishEntryOK fs \<longrightarrow>
      parseFishHistory (unlines (concat (map fishLines fs))) since = (map fishCommand fs, None))
   \<and> fst (filterCommands commands start stop baseline w) =
        filter (\<lambda>c. \<not> IsZero (Timestamp c)) (fst (filterCommands commands start stop baseline w)) @
        filter (\<lambda>c. IsZero (Timestamp c)) (fst (filterCommands commands start stop baseline w))
   \<and> subseq (filter (\<lambda>c. \<not> IsZero (Timestamp c))
               (fst (filterCommands commands start stop baseline w))) commands
   \<and> subseq (filter (\<lambda>c. IsZero (Timestamp c))
               (fst (filterCommands commands start stop baseline w))) commands
   \<and> ((\<forall>c \<in> set commands. IsZero (Timestamp c)) \<or> (\<forall>c \<in> set commands. \<not> IsZero (Timestamp c)) \<longrightarrow>
        subseq (fst (filterCommands commands start stop baseline w)) commands)"
  using parseBashHistory_wellformed [of bs since] parseZshHistory_wellformed [of zs since]
    parseFishHistory_wellformed [of fs since]
    filterCommands_split [of commands start stop baseline w]
    filterCommands_parts_subseq [of commands start stop baseline w]
    filterCommands_uniform_subseq [of commands start stop baseline w]
  by blast

lemma example_entries_ok:
  "list_all bashEntryOK [(''ls -la'', Some 1700000001), (''make'', None)]"
  "list_all zshEntryOK [(''ls -la'', 1700000001, 0), (''make'', 1700000002, 3)]"
  "list_all fishEntryOK [(''ls -la'', 1700000001), (''make'', 1700000002)]"
  by (simp_all add: HasPrefix_def lineOK_def epochOK_def MaxScanTokenSize_def itoa.simps)

theorem history_parsers_recover_witness:
  "parseBashHistory (unlines [''#1700000001'', ''ls -la'', ''make'']) (Unix 1700000000) =
     ([\<lparr>Raw = ''ls -la'', Timestamp = Unix 1700000001\<rparr>, \<lparr>Raw = ''make'', Timestamp = zeroTime\<rparr>], None)
   \<and> parseZshHistory (unlines ['': 1700000001:0;ls -la'', '': 1700000002:3;make'']) (Unix 1700000000) =
     ([\<lparr>Raw = ''ls -la'', Timestamp = Unix 1700000001\<rparr>,
       \<lparr>Raw = ''make'', Timestamp = Unix 1700000002\<rparr>], None)
   \<and> parseFishHistory (unlines [''- cmd: ls -la'', ''  when: 1700000001'',
                                   ''- cmd: make'', ''  when: 1700000002'']) (Unix 1700000000) =
     ([\<lparr>Raw = ''ls -la'', Timestamp = Unix 1700000001\<rparr>,
       \<lparr>Raw = ''make'', Timestamp = Unix 1700000002\<rparr>], None)
   \<and> subseq (fst (filterCommands
                 [\<lparr>Raw = ''ls -la'', Timestamp = Unix 1700000001\<rparr>,
                  \<lparr>Raw = ''make'', Timestamp = Unix 1700000002\<rparr>]
                 (Unix 1700000000) None 0 []))
        [\<lparr>Raw = ''ls -la'', Timestamp = Unix 1700000001\<rparr>,
         \<lparr>Raw = ''make'', Timestamp = Unix 1700000002\<rparr>]"
proof -
  have nz: "\<forall>c \<in> set [\<lparr>Raw = ''ls -la'', Timestamp = Unix 1700000001\<rparr>,
                         \<lparr>Raw = ''make'', Timestamp = Unix 1700000002\<rparr>]. \<not> IsZero (Timestamp c)"
    by (simp add: IsZero_def Unix_def unixToInternal_def)
  show ?thesis
    using example_entries_ok nz
      history_parsers_recover [where bs = "[(''ls -la'', Some 1700000001), (''make'', None)]"
        and zs = "[(''ls -la'', 1700000001, 0), (''make'', 1700000002, 3)]"
        and fs = "[(''ls -la'', 1700000001), (''make'', 1700000002)]"
        and since = "Unix 1700000000"
        and commands = "[\<lparr>Raw = ''ls -la'', Timestamp = Unix 1700000001\<rparr>,
                         \<lparr>Raw = ''make'', Timestamp = Unix 1700000002\<rparr>]"
        and start = "Unix 1700000000" and stop = None and baseline = 0 and w = "[]"]
    by (simp add: itoa.simps)
qed

section \<open>Properties of the git collector\<close>

lemma isExitCode128_iff: "isExitCode128 e \<longleftrightarrow> e = ExitError 128"
  by (cases e) (simp_all add: isExitCode128_def)

text \<open>
  C6. With \<open>runner\<close> and \<open>workDir\<close> the runner and directory the collector uses:
  when the branch query fails with exit status 128 the collector returns, without
  error, a result with no git snapshot and the warning "not a git repository"; when the
  branch query does not fail with status 128 and some query of the collection fails,
  the collector returns a fatal error, the error of one of its queries; when all five
  queries succeed, the snapshot holds the trimmed branch and head commit, both diffs
  and the lines of the log.
\<close>

theorem GitCollector_Collect_outcomes:
  assumes "runner = (case Runner g of None \<Rightarrow> defaultGitRunner | Some r \<Rightarrow> r)"
    and "workDir = (if gc_WorkDir g = [] then WorkDir sess else gc_WorkDir g)"
    and "since = formatTime (StartTime sess)"
  shows "(runner workDir [''rev-parse'', ''--abbrev-ref'', ''HEAD''] = Inl (ExitError 128) \<longrightarrow>
            GitCollector_Collect defaultGitRunner formatTime g sess =
              Inr \<lparr>cr_FileEdits = [], cr_Commands = [], cr_GitInfo = None, cr_EditorTabs = [],
                   cr_Warnings = [''not a git repository'']\<rparr>)
       \<and> (runner workDir [''rev-parse'', ''--abbrev-ref'', ''HEAD''] \<noteq> Inl (ExitError 128) \<and>
            (\<exists>q \<in> set (gitQueries since). \<exists>e. runner workDir q = Inl e) \<longrightarrow>
            (\<exists>err. GitCollector_Collect defaultGitRunner formatTime g sess = Inl err \<and>
                   (\<exists>q \<in> set (gitQueries since). runner workDir q = Inl err)))
       \<and> (runner workDir [''rev-parse'', ''--abbrev-ref'', ''HEAD''] = Inr branch \<and>
            runner workDir [''rev-parse'', ''HEAD''] = Inr headCommit \<and>
            runner workDir [''diff''] = Inr diff \<and>
            runner workDir [''diff'', ''--staged''] = Inr stagedDiff \<and>
            runner workDir [''log'', ''--oneline'', ''--since='' @ since] = Inr logOut \<longrightarrow>
            GitCollector_Collect defaultGitRunner formatTime g sess =
              Inr \<lparr>cr_FileEdits = [], cr_Commands = [],
                   cr_GitInfo = Some \<lparr>Branch = TrimSpace branch, HeadCommit = TrimSpace headCommit,
                                      Diff = diff, StagedDiff = stagedDiff,
                                      RecentLog = parseLogLines logOut\<rparr>,
                   cr_EditorTabs = [], cr_Warnings = []\<rparr>)"
proof (intro conjI impI)
  assume "runner workDir [''rev-parse'', ''--abbrev-ref'', ''HEAD''] = Inl (ExitError 128)"
  then show "GitCollector_Collect defaultGitRunner formatTime g sess =
      Inr \<lparr>cr_FileEdits = [], cr_Commands = [], cr_GitInfo = None, cr_EditorTabs = [],
           cr_Warnings = [''not a git repository'']\<rparr>"
    unfolding GitCollector_Collect_def Let_def assms(1,2) [symmetric]
    by (simp add: isExitCode128_def emptyResult_def)
next
  assume a: "runner workDir [''rev-parse'', ''--abbrev-ref'', ''HEAD''] \<noteq> Inl (ExitError 128) \<and>
            (\<exists>q \<in> set (gitQueries since). \<exists>e. runner workDir q = Inl e)"
  then show "\<exists>err. GitCollector_Collect defaultGitRunner formatTime g sess = Inl err \<and>
                   (\<exists>q \<in> set (gitQueries since). runner workDir q = Inl err)"
    unfolding GitCollector_Collect_def Let_def assms(1,2) [symmetric] assms(3) [symmetric]
    by (auto simp: gitQueries_def isExitCode128_iff split: sum.splits)
next
  assume "runner workDir [''rev-parse'', ''--abbrev-ref'', ''HEAD''] = Inr branch \<and>
            runner workDir [''rev-parse'', ''HEAD''] = Inr headCommit \<and>
            runner workDir [''diff''] = Inr diff \<and>
            runner workDir [''diff'', ''--staged''] = Inr stagedDiff \<and>
            runner workDir [''log'', ''--oneline'', ''--since='' @ since] = Inr logOut"
  then show "GitCollector_Collect defaultGitRunner formatTime g sess =
              Inr \<lparr>cr_FileEdits = [], cr_Commands = [],
                   cr_GitInfo = Some \<lparr>Branch = TrimSpace branch, HeadCommit = TrimSpace headCommit,
                                      Diff = diff, StagedDiff = stagedDiff,
                                      RecentLog = parseLogLines logOut\<rparr>,
                   cr_EditorTabs = [], cr_Warnings = []\<rparr>"
    unfolding GitCollector_Collect_def Let_def assms(1,2) [symmetric] assms(3) [symmetric]
    by (simp add: emptyResult_def)
qed


theorem GitCollector_Collect_outcomes_witness:
  "GitCollector_Collect (exampleRunner 0 0) exampleFormat
       \<lparr>gc_WorkDir = ''/some/dir'', Runner = Some (exampleRunner 128 0)\<rparr> (exampleSession 0) =
     Inr \<lparr>cr_FileEdits = [], cr_Commands = [], cr_GitInfo = None, cr_EditorTabs = [],
          cr_Warnings = [''not a git repository'']\<rparr>
   \<and> GitCollector_Collect (exampleRunner 0 0) exampleFormat
       \<lparr>gc_WorkDir = ''/repo'', Runner = Some (exampleRunner 0 1)\<rparr> (exampleSession 0) =
     Inl (ExitError 1)
   \<and> GitCollector_Collect (exampleRunner 0 0) exampleFormat
       \<lparr>gc_WorkDir = [], Runner = None\<rparr> (exampleSession 0) =
     Inr \<lparr>cr_FileEdits = [], cr_Commands = [],
          cr_GitInfo = Some \<lparr>Branch = ''main'', HeadCommit = ''abc123def456'',
                             Diff = ''diff --git a/foo.go b/foo.go'', StagedDiff = [],
                             RecentLog = [''abc123 first commit'', ''def456 second commit'']\<rparr>,
          cr_EditorTabs = [], cr_Warnings = []\<rparr>"
proof -
  have 1: "GitCollector_Collect (exampleRunner 0 0) exampleFormat
       \<lparr>gc_WorkDir = ''/some/dir'', Runner = Some (exampleRunner 128 0)\<rparr> (exampleSession 0) =
     Inr \<lparr>cr_FileEdits = [], cr_Commands = [], cr_GitInfo = None, cr_EditorTabs = [],
          cr_Warnings = [''not a git repository'']\<rparr>"
    using GitCollector_Collect_outcomes [where g = "\<lparr>gc_WorkDir = ''/some/dir'', Runner = Some (exampleRunner 128 0)\<rparr>"
        and defaultGitRunner = "exampleRunner 0 0" and formatTime = exampleFormat
        and sess = "exampleSession 0" and runner = "exampleRunner 128 0" and workDir = "''/some/dir''"
        and since = "exampleFormat (StartTime (exampleSession 0))"]
    by (simp add: exampleRunner_def)
  have 2: "GitCollector_Collect (exampleRunner 0 0) exampleFormat
       \<lparr>gc_WorkDir = ''/repo'', Runner = Some (exampleRunner 0 1)\<rparr> (exampleSession 0) =
     Inl (ExitError 1)"
    using GitCollector_Collect_outcomes [where g = "\<lparr>gc_WorkDir = ''/repo'', Runner = Some (exampleRunner 0 1)\<rparr>"
        and defaultGitRunner = "exampleRunner 0 0" and formatTime = exampleFormat
        and sess = "exampleSession 0" and runner = "exampleRunner 0 1" and workDir = "''/repo''"
        and since = "exampleFormat (StartTime (exampleSession 0))"]
    by (auto simp: exampleRunner_def gitQueries_def split: if_splits)
  have 3: "GitCollector_Collect (exampleRunner 0 0) exampleFormat
       \<lparr>gc_WorkDir = [], Runner = None\<rparr> (exampleSession 0) =
     Inr \<lparr>cr_FileEdits = [], cr_Commands = [],
          cr_GitInfo = Some \<lparr>Branch = ''main'', HeadCommit = ''abc123def456'',
                             Diff = ''diff --git a/foo.go b/foo.go'', StagedDiff = [],
                             RecentLog = [''abc123 first commit'', ''def456 second commit'']\<rparr>,
          cr_EditorTabs = [], cr_Warnings = []\<rparr>"
    using GitCollector_Collect_outcomes [where g = "\<lparr>gc_WorkDir = [], Runner = None\<rparr>"
        and defaultGitRunner = "exampleRunner 0 0" and formatTime = exampleFormat
        and sess = "exampleSession 0" and runner = "exampleRunner 0 0"
        and workDir = "WorkDir (exampleSession 0)"
        and since = "exampleFormat (StartTime (exampleSession 0))"
        and branch = "''main'' @ [CHR 0x0A]" and headCommit = "''abc123def456'' @ [CHR 0x0A]"
        and diff = "''diff --git a/foo.go b/foo.go''" and stagedDiff = "[]"
        and logOut = "''abc123 first commit'' @ [CHR 0x0A] @ ''def456 second commit'' @ [CHR 0x0A]"]
    by (simp add: exampleRunner_def TrimSpace_def isSpace_def parseLogLines_def SplitNL_def)
  from 1 2 3 show ?thesis by (intro conjI)
qed

section \<open>Properties of the file activity collector\<close>

lemma noteEdit_distinct: "distinct (map fst l) \<Longrightarrow> distinct (map fst (noteEdit p t l))"
  by (simp add: noteEdit_def distinct_update split: option.splits)

lemma map_of_noteEdit:
  "map_of (noteEdit p t l) =
     (map_of l)(p \<mapsto> (case map_of l p of None \<Rightarrow> t | Some t0 \<Rightarrow> max t0 t))"
  by (auto simp: noteEdit_def update_conv' After_def max_def fun_eq_iff split: option.splits)

lemma seedLatest_noteAll:
  "seedLatest fes l = noteAll l (map (\<lambda>fe. (Path fe, fe_Timestamp fe)) fes)"
  by (induction fes arbitrary: l) (simp_all add: noteAll_def)

lemma walkLatest_noteAll:
  "walkLatest fs fc patterns start stopTime ds l =
     noteAll l (List.map_filter (scanFile fs fc patterns start stopTime) ds)"
  by (induction ds arbitrary: l) (auto simp: noteAll_def List.map_filter_simps split: option.splits)

lemma noteAll_append: "noteAll l (xs @ ys) = noteAll (noteAll l xs) ys"
  by (simp add: noteAll_def)

lemma noteAll_distinct: "distinct (map fst l) \<Longrightarrow> distinct (map fst (noteAll l occ))"
  by (induction occ arbitrary: l) (auto simp: noteAll_def noteEdit_distinct)

lemma map_of_noteAll:
  "map_of (noteAll [] occ) q =
     (if {t. (q, t) \<in> set occ} = {} then None else Some (Max {t. (q, t) \<in> set occ}))"
proof (induction occ rule: rev_induct)
  case Nil
  then show ?case by (simp add: noteAll_def)
next
  case (snoc x occ)
  obtain p t where x: "x = (p, t)" by (cases x)
  have step: "noteAll [] (occ @ [x]) = noteEdit p t (noteAll [] occ)"
    by (simp add: noteAll_def x)
  show ?case
  proof (cases "q = p")
    case False
    then have "{t. (q, t) \<in> set (occ @ [x])} = {t. (q, t) \<in> set occ}" by (auto simp: x)
    then show ?thesis using False snoc by (simp add: step map_of_noteEdit)
  next
    case True
    have fin: "finite {t'. (p, t') \<in> set occ}"
    proof -
      have "{t'. (p, t') \<in> set occ} \<subseteq> snd ` set occ" by force
      then show ?thesis by (rule finite_subset) simp
    qed
    have ins: "{t'. (p, t') \<in> set (occ @ [x])} = insert t {t'. (p, t') \<in> set occ}"
      by (auto simp: x)
    show ?thesis
    proof (cases "{t'. (p, t') \<in> set occ} = {}")
      case e: True
      then have "map_of (noteAll [] occ) p = None" using snoc True by simp
      then show ?thesis unfolding True step ins by (simp add: map_of_noteEdit e)
    next
      case ne: False
      then have "map_of (noteAll [] occ) p = Some (Max {t'. (p, t') \<in> set occ})"
        using snoc True by simp
      then show ?thesis unfolding True step ins
        using Max_insert [OF fin ne, of t] by (simp add: map_of_noteEdit max.commute)
    qed
  qed
qed

lemma buildEdits_eq:
  "buildEdits fs fc patterns latest =
     map (\<lambda>(path, ts). \<lparr>Path = path, fe_Timestamp = ts,
                          fe_Diff = fs_captureFileDiff fs path (fc_WorkDir fc)\<rparr>)
       (filter (\<lambda>(path, ts). \<not> isIgnored fs fc path patterns) latest)"
  by (induction latest) auto

lemma Collect_edits:
  "cr_FileEdits (FileCollector_Collect fs now fc sess) =
     (case loadIgnorePatterns fs fc of
        (patterns, Some err) \<Rightarrow> []
      | (patterns, None) \<Rightarrow>
          buildEdits fs fc patterns (noteAll [] (occurrences fs now fc sess)))"
  by (auto simp: FileCollector_Collect_def occurrences_def Let_def emptyResult_def
      seedLatest_noteAll walkLatest_noteAll noteAll_append split: prod.splits option.splits)

lemma buildEdits_paths:
  "map Path (buildEdits fs fc patterns latest) =
     map fst (filter (\<lambda>(path, ts). \<not> isIgnored fs fc path patterns) latest)"
  by (induction latest) auto

lemma buildEdits_mem:
  "fe \<in> set (buildEdits fs fc patterns latest) \<Longrightarrow> (Path fe, fe_Timestamp fe) \<in> set latest"
  by (induction latest) (auto split: if_splits)

text \<open>
  C7. The file edits returned by the collector have pairwise distinct paths, and the
  timestamp returned for a path is the timestamp of one of the occurrences of that path
  among the edits recorded on the session and the files recorded by the walk, none of
  which is later.
\<close>

theorem FileCollector_Collect_latest:
  "distinct (map Path (cr_FileEdits (FileCollector_Collect fs now fc sess)))
   \<and> (\<forall>fe \<in> set (cr_FileEdits (FileCollector_Collect fs now fc sess)).
        (Path fe, fe_Timestamp fe) \<in> set (occurrences fs now fc sess) \<and>
        (\<forall>(p, t) \<in> set (occurrences fs now fc sess). p = Path fe \<longrightarrow> t \<le> fe_Timestamp fe))"
proof (cases "loadIgnorePatterns fs fc")
  case (Pair patterns err)
  show ?thesis
  proof (cases err)
    case (Some e)
    then show ?thesis using Pair by (simp add: Collect_edits)
  next
    case None
    define occ where "occ = occurrences fs now fc sess"
    define latest where "latest = noteAll [] occ"
    have res: "cr_FileEdits (FileCollector_Collect fs now fc sess) = buildEdits fs fc patterns latest"
      using Pair None by (simp add: Collect_edits latest_def occ_def)
    have d: "distinct (map fst latest)"
      unfolding latest_def by (rule noteAll_distinct) simp
    have d1: "distinct (map Path (buildEdits fs fc patterns latest))"
      unfolding buildEdits_paths using d by (rule distinct_map_filter)
    have best: "(Path fe, fe_Timestamp fe) \<in> set occ \<and>
                (\<forall>(p, t) \<in> set occ. p = Path fe \<longrightarrow> t \<le> fe_Timestamp fe)"
      if fe: "fe \<in> set (buildEdits fs fc patterns latest)" for fe
    proof -
      have "(Path fe, fe_Timestamp fe) \<in> set latest" using fe by (rule buildEdits_mem)
      then have m: "map_of latest (Path fe) = Some (fe_Timestamp fe)"
        using d by simp
      have fin: "finite {t. (Path fe, t) \<in> set occ}"
      proof -
        have "{t. (Path fe, t) \<in> set occ} \<subseteq> snd ` set occ" by force
        then show ?thesis by (rule finite_subset) simp
      qed
      from m have ne: "{t. (Path fe, t) \<in> set occ} \<noteq> {}"
        and mx: "fe_Timestamp fe = Max {t. (Path fe, t) \<in> set occ}"
        unfolding latest_def map_of_noteAll by (auto split: if_splits)
      have "fe_Timestamp fe \<in> {t. (Path fe, t) \<in> set occ}"
        unfolding mx using fin ne by (rule Max_in)
      moreover have "t \<le> fe_Timestamp fe" if "(Path fe, t) \<in> set occ" for t
        unfolding mx using fin that by (simp add: Max_ge)
      ultimately show ?thesis by auto
    qed
    show ?thesis unfolding res occ_def [symmetric] using d1 best by blast
  qed
qed


lemma example_unix:
  "Unix 1700000000 = 63835596800000000000" "Unix 1700000900 = 63835597700000000000"
  "Unix 1700000500 = 63835597300000000000" "Unix 1600000000 = 63735596800000000000"
  "Unix 1700000300 = 63835597100000000000" "Unix 1700000200 = 63835597000000000000"
  "Unix 1700000100 = 63835596900000000000"
  by (simp_all add: Unix_def unixToInternal_def)

lemma example_collect:
  "cr_FileEdits (FileCollector_Collect exampleFS (Unix 1700000950)
        \<lparr>fc_WorkDir = ''/p'', IgnorePatterns = [''.git'']\<rparr> watchedSession) =
     [\<lparr>Path = ''/p/main.go'', fe_Timestamp = Unix 1700000500, fe_Diff = []\<rparr>,
      \<lparr>Path = ''/p/notes.md'', fe_Timestamp = Unix 1700000200, fe_Diff = []\<rparr>]"
  by (simp add: FileCollector_Collect_def loadIgnorePatterns_def readPatternFile_def
      exampleFS_def exampleJoin_def watchedSession_def emptyResult_def noteEdit_def
      scanFile_def isIgnored_def Base_def Before_def After_def example_unix)

theorem FileCollector_Collect_latest_witness:
  "cr_FileEdits (FileCollector_Collect exampleFS (Unix 1700000950)
        \<lparr>fc_WorkDir = ''/p'', IgnorePatterns = [''.git'']\<rparr> watchedSession) =
     [\<lparr>Path = ''/p/main.go'', fe_Timestamp = Unix 1700000500, fe_Diff = []\<rparr>,
      \<lparr>Path = ''/p/notes.md'', fe_Timestamp = Unix 1700000200, fe_Diff = []\<rparr>]
   \<and> (''/p/main.go'', Unix 1700000500)
        \<in> set (occurrences exampleFS (Unix 1700000950)
                  \<lparr>fc_WorkDir = ''/p'', IgnorePatterns = [''.git'']\<rparr> watchedSession)
   \<and> (''/p/notes.md'', Unix 1700000200)
        \<in> set (occurrences exampleFS (Unix 1700000950)
                  \<lparr>fc_WorkDir = ''/p'', IgnorePatterns = [''.git'']\<rparr> watchedSession)"
  using FileCollector_Collect_latest [of exampleFS "Unix 1700000950"
      "\<lparr>fc_WorkDir = ''/p'', IgnorePatterns = [''.git'']\<rparr>" watchedSession]
  unfolding example_collect by simp

section \<open>Properties of the parsers and renderers\<close>

lemma Index_here: "Index (sub @ rest) sub = Some 0"
proof -
  have "prefix sub (sub @ rest)" by simp
  then show ?thesis by (cases "sub @ rest") auto
qed

lemma Index_after:
  "c \<notin> set enc \<Longrightarrow> Index (enc @ (c # sub) @ rest) (c # sub) = Some (length enc)"
proof (induction enc)
  case Nil
  show ?case using Index_here [of "c # sub" rest] by simp
next
  case (Cons e enc)
  then show ?case by auto
qed

lemma Index_dataSuffix:
  "CHR '' '' \<notin> set enc \<Longrightarrow> Index (enc @ dataSuffix @ rest) dataSuffix = Some (length enc)"
  unfolding dataSuffix_def using Index_after [of "CHR '' ''" enc "''-->''" rest] by simp

lemma Index_dataPrefix_rendered:
  "Index (versionSentinel @ newline @ dataPrefix @ rest) dataPrefix = Some 35"
proof -
  have "Index (dataPrefix @ rest) dataPrefix = Some 0" by (rule Index_here)
  then show ?thesis
    by (simp add: versionSentinel_def newline_def dataPrefix_def)
qed

lemma Contains_sentinel_rendered: "Contains (versionSentinel @ rest) versionSentinel"
  by (simp add: Contains_def Index_here)

lemma embeddedPayload_rendered:
  assumes "CHR '' '' \<notin> set enc"
  shows "embeddedPayload (versionSentinel @ newline @ dataPrefix @ enc @ dataSuffix @ rest) = Some enc"
proof -
  have l: "length versionSentinel + length newline = 35" "length dataPrefix = 19"
    by (simp_all add: versionSentinel_def newline_def dataPrefix_def)
  have d: "drop (35 + length dataPrefix)
             (versionSentinel @ newline @ dataPrefix @ enc @ dataSuffix @ rest) =
           enc @ dataSuffix @ rest"
    using l by simp
  have i: "Index (versionSentinel @ newline @ dataPrefix @ enc @ dataSuffix @ rest) dataPrefix
             = Some 35"
    by (rule Index_dataPrefix_rendered)
  show ?thesis
    unfolding embeddedPayload_def i option.case d Index_dataSuffix [OF assms]
    by simp
qed

lemma Parse_by_payload:
  "MarkdownParser_Parse L content =
     (if \<not> Contains content versionSentinel
        then Inl ''not a valid handoff bundle: missing version sentinel''
      else case embeddedPayload content of
        None \<Rightarrow> (if Index content dataPrefix = None
                   then Inl ''not a valid handoff bundle: missing data payload''
                   else Inl ''not a valid handoff bundle: malformed data payload'')
      | Some enc \<Rightarrow>
          (case base64_DecodeString L enc of
             Inl err \<Rightarrow> Inl (''not a valid handoff bundle: corrupted base64 payload: '' @ err)
           | Inr jsonBytes \<Rightarrow>
               (case json_Unmarshal L jsonBytes of
                  Inl err \<Rightarrow>
                    Inl (''not a valid handoff bundle: failed to parse embedded JSON: '' @ err)
                | Inr bundle \<Rightarrow> Inr bundle)))"
  by (simp add: MarkdownParser_Parse_def embeddedPayload_def Let_def split: option.splits)

lemma invalid_messages:
  "isInvalidBundle ''not a valid handoff bundle: missing version sentinel''"
  "isInvalidBundle ''not a valid handoff bundle: missing data payload''"
  "isInvalidBundle ''not a valid handoff bundle: malformed data payload''"
  "isInvalidBundle (''not a valid handoff bundle: corrupted base64 payload: '' @ err)"
  "isInvalidBundle (''not a valid handoff bundle: failed to parse embedded JSON: '' @ err)"
  by (simp_all add: isInvalidBundle_def HasPrefix_def)

lemma Parse_error_invalid:
  "MarkdownParser_Parse L content = Inl err \<Longrightarrow> isInvalidBundle err"
  unfolding Parse_by_payload
  by (auto simp: isInvalidBundle_def HasPrefix_def split: if_splits option.splits sum.splits)


text \<open>
  C2. Parsing a Markdown document fails with an \<open>InvalidBundle\<close> error when the
  version marker is absent, when there is no embedded payload, when the payload does not
  decode from base64, and when the decoded text does not unmarshal; every error of the
  parser is an \<open>InvalidBundle\<close> error. When parsing succeeds the marker is present
  and the bundle is what the embedded payload decodes to. Two documents that both hold
  the marker and have the same embedded payload parse to the same result; in particular
  the text that follows the payload comment of a rendered document does not matter.
\<close>

theorem MarkdownParser_Parse_payload_only:
  "(\<not> Contains content versionSentinel \<longrightarrow>
      (\<exists>e. MarkdownParser_Parse L content = Inl e \<and> isInvalidBundle e))
   \<and> (embeddedPayload content = None \<longrightarrow>
      (\<exists>e. MarkdownParser_Parse L content = Inl e \<and> isInvalidBundle e))
   \<and> (embeddedPayload content = Some enc \<and> (\<exists>e. base64_DecodeString L enc = Inl e) \<longrightarrow>
      (\<exists>e. MarkdownParser_Parse L content = Inl e \<and> isInvalidBundle e))
   \<and> (embeddedPayload content = Some enc \<and> base64_DecodeString L enc = Inr j \<and>
       (\<exists>e. json_Unmarshal L j = Inl e) \<longrightarrow>
      (\<exists>e. MarkdownParser_Parse L content = Inl e \<and> isInvalidBundle e))
   \<and> (MarkdownParser_Parse L content = Inl err \<longrightarrow> isInvalidBundle err)
   \<and> (MarkdownParser_Parse L content = Inr b \<longrightarrow>
        Contains content versionSentinel \<and>
        (\<exists>enc j. embeddedPayload content = Some enc \<and> base64_DecodeString L enc = Inr j \<and>
                 json_Unmarshal L j = Inr b))
   \<and> (Contains content versionSentinel \<and> Contains contentB versionSentinel \<and>
       embeddedPayload content = Some enc \<and> embeddedPayload contentB = Some enc \<longrightarrow>
        MarkdownParser_Parse L content = MarkdownParser_Parse L contentB)
   \<and> (CHR '' '' \<notin> set payload \<longrightarrow>
        MarkdownParser_Parse L (exampleDocument payload sections) =
        MarkdownParser_Parse L (exampleDocument payload sectionsB))"
proof (intro conjI impI)
  assume "\<not> Contains content versionSentinel"
  then show "\<exists>e. MarkdownParser_Parse L content = Inl e \<and> isInvalidBundle e"
    by (simp add: Parse_by_payload invalid_messages(1))
next
  assume "embeddedPayload content = None"
  then have "\<exists>e. MarkdownParser_Parse L content = Inl e"
    by (simp add: Parse_by_payload)
  then show "\<exists>e. MarkdownParser_Parse L content = Inl e \<and> isInvalidBundle e"
    using Parse_error_invalid by blast
next
  assume "embeddedPayload content = Some enc \<and> (\<exists>e. base64_DecodeString L enc = Inl e)"
  then have "\<exists>e. MarkdownParser_Parse L content = Inl e"
    by (auto simp: Parse_by_payload)
  then show "\<exists>e. MarkdownParser_Parse L content = Inl e \<and> isInvalidBundle e"
    using Parse_error_invalid by blast
next
  assume "embeddedPayload content = Some enc \<and> base64_DecodeString L enc = Inr j \<and>
       (\<exists>e. json_Unmarshal L j = Inl e)"
  then have "\<exists>e. MarkdownParser_Parse L content = Inl e"
    by (auto simp: Parse_by_payload)
  then show "\<exists>e. MarkdownParser_Parse L content = Inl e \<and> isInvalidBundle e"
    using Parse_error_invalid by blast
next
  assume "MarkdownParser_Parse L content = Inl err"
  then show "isInvalidBundle err" by (rule Parse_error_invalid)
next
  assume a: "MarkdownParser_Parse L content = Inr b"
  then show "Contains content versionSentinel"
    unfolding Parse_by_payload by (simp split: if_splits)
  from a show "\<exists>enc j. embeddedPayload content = Some enc \<and> base64_DecodeString L enc = Inr j \<and>
                 json_Unmarshal L j = Inr b"
    unfolding Parse_by_payload by (auto split: if_splits option.splits sum.splits)
next
  assume "Contains content versionSentinel \<and> Contains contentB versionSentinel \<and>
       embeddedPayload content = Some enc \<and> embeddedPayload contentB = Some enc"
  then show "MarkdownParser_Parse L content = MarkdownParser_Parse L contentB"
    by (simp add: Parse_by_payload)
next
  assume p: "CHR '' '' \<notin> set payload"
  have "embeddedPayload (exampleDocument payload s) = Some payload" for s
    unfolding exampleDocument_def using embeddedPayload_rendered [OF p] by simp
  moreover have "Contains (exampleDocument payload s) versionSentinel" for s
    unfolding exampleDocument_def by (rule Contains_sentinel_rendered)
  ultimately show "MarkdownParser_Parse L (exampleDocument payload sections) =
        MarkdownParser_Parse L (exampleDocument payload sectionsB)"
    by (simp add: Parse_by_payload)
qed

lemma example_Contains:
  "\<not> Contains ''# Some Document'' versionSentinel"
  by (simp add: Contains_def versionSentinel_def)

lemma example_payloads:
  "embeddedPayload (exampleDocument ''e30='' s) = Some ''e30=''"
  "embeddedPayload (exampleDocument ''!!!not-valid-base64!!!'' s) = Some ''!!!not-valid-base64!!!''"
  unfolding exampleDocument_def
  using embeddedPayload_rendered [of "''e30=''"]
    embeddedPayload_rendered [of "''!!!not-valid-base64!!!''"]
  by simp_all

theorem MarkdownParser_Parse_payload_only_witness:
  "(\<exists>e. MarkdownParser_Parse exampleLib ''# Some Document'' = Inl e \<and> isInvalidBundle e)
   \<and> (\<exists>e. MarkdownParser_Parse exampleLib (exampleDocument ''!!!not-valid-base64!!!'' ''# Handoff'')
            = Inl e \<and> isInvalidBundle e)
   \<and> MarkdownParser_Parse exampleLib (exampleDocument ''e30='' ''## Summary'') =
       MarkdownParser_Parse exampleLib (exampleDocument ''e30='' ''nothing of the sort'')"
proof -
  have bad: "embeddedPayload (exampleDocument ''!!!not-valid-base64!!!'' ''# Handoff'')
               = Some ''!!!not-valid-base64!!!'' \<and>
             (\<exists>e. base64_DecodeString exampleLib ''!!!not-valid-base64!!!'' = Inl e)"
    using example_payloads(2) by (simp add: exampleLib_def)
  have sp: "CHR '' '' \<notin> set ''e30=''" by simp
  have 1: "\<exists>e. MarkdownParser_Parse exampleLib ''# Some Document'' = Inl e \<and> isInvalidBundle e"
    using MarkdownParser_Parse_payload_only [where content = "''# Some Document''"
        and L = exampleLib, THEN conjunct1] example_Contains
    by (rule mp)
  have 2: "\<exists>e. MarkdownParser_Parse exampleLib
                 (exampleDocument ''!!!not-valid-base64!!!'' ''# Handoff'') = Inl e \<and>
               isInvalidBundle e"
    using MarkdownParser_Parse_payload_only [where
        content = "exampleDocument ''!!!not-valid-base64!!!'' ''# Handoff''"
        and enc = "''!!!not-valid-base64!!!''" and L = exampleLib,
        THEN conjunct2, THEN conjunct2, THEN conjunct1] bad
    by (rule mp)
  have 3: "MarkdownParser_Parse exampleLib (exampleDocument ''e30='' ''## Summary'') =
       MarkdownParser_Parse exampleLib (exampleDocument ''e30='' ''nothing of the sort'')"
    using MarkdownParser_Parse_payload_only [where L = exampleLib
        and payload = "''e30=''" and sections = "''## Summary''"
        and sectionsB = "''nothing of the sort''",
        THEN conjunct2, THEN conjunct2, THEN conjunct2, THEN conjunct2, THEN conjunct2,
        THEN conjunct2, THEN conjunct2] sp
    by (rule mp)
  from 1 2 3 show ?thesis by (intro conjI)
qed


lemma MarkdownRenderer_Render_shape:
  "json_Marshal L b = Inr j \<Longrightarrow>
     \<exists>rest. MarkdownRenderer_Render L b =
       Inr (versionSentinel @ newline @ dataPrefix @ base64_EncodeToString L j @ dataSuffix @ rest)"
  by (simp add: MarkdownRenderer_Render_def Let_def)

text \<open>
  What the two parsers make of a rendered bundle is what \<open>json.Unmarshal\<close> makes of
  the text that \<open>json.Marshal\<close> (\<open>json.MarshalIndent\<close> for the JSON form) made of
  the bundle: the Markdown parser finds the payload that the renderer embedded,
  whatever the sections after it hold, provided base64 decodes what it encoded and
  writes no space; the JSON renderer and parser are the calls of the library. Neither
  renderer checks the strings or the times of the bundle before it encodes them, and
  neither parser compares its result with anything. So the round trip of a bundle is
  lossless exactly where the round trip of \<open>encoding/json\<close> is, and it is not for
  every bundle that the program builds: \<open>json.Marshal\<close> replaces each byte of a
  string that is not valid UTF-8 by U+FFFD, and the commands of a bundle are the lines
  of the shell history, read byte by byte.
\<close>

lemma markdown_roundtrip_by_library:
  assumes "json_Marshal L b = Inr j"
    and "base64_DecodeString L (base64_EncodeToString L j) = Inr j"
    and "CHR '' '' \<notin> set (base64_EncodeToString L j)"
  shows "\<exists>doc. MarkdownRenderer_Render L b = Inr doc \<and>
           MarkdownParser_Parse L doc =
             (case json_Unmarshal L j of
                Inl err \<Rightarrow>
                  Inl (''not a valid handoff bundle: failed to parse embedded JSON: '' @ err)
              | Inr bundle \<Rightarrow> Inr bundle)"
proof -
  obtain rest where r: "MarkdownRenderer_Render L b =
      Inr (versionSentinel @ newline @ dataPrefix @ base64_EncodeToString L j @ dataSuffix @ rest)"
    using MarkdownRenderer_Render_shape [OF assms(1)] by blast
  define doc where
    "doc = versionSentinel @ newline @ dataPrefix @ base64_EncodeToString L j @ dataSuffix @ rest"
  have p: "embeddedPayload doc = Some (base64_EncodeToString L j)"
    unfolding doc_def using assms(3) by (rule embeddedPayload_rendered)
  have c: "Contains doc versionSentinel"
    unfolding doc_def by (rule Contains_sentinel_rendered)
  have "MarkdownParser_Parse L doc =
             (case json_Unmarshal L j of
                Inl err \<Rightarrow>
                  Inl (''not a valid handoff bundle: failed to parse embedded JSON: '' @ err)
              | Inr bundle \<Rightarrow> Inr bundle)"
    unfolding Parse_by_payload using p c assms(2) by simp
  then show ?thesis
    using r doc_def by blast
qed

lemma json_roundtrip_by_library:
  assumes "json_MarshalIndent L b = Inr j"
  shows "\<exists>doc. JSONRenderer_Render L b = Inr doc \<and>
           JSONParser_Parse L doc =
             (case json_Unmarshal L j of
                Inl err \<Rightarrow> Inl (''failed to parse JSON bundle: '' @ err)
              | Inr bundle \<Rightarrow> Inr bundle)"
  using assms by (simp add: JSONRenderer_Render_def JSONParser_Parse_def)

section \<open>Properties of the stop command\<close>

lemma runCollectors_fail:
  "runCollectors pre s merged env = (Inr m1, env1) \<Longrightarrow> c s env1 = (Inl err, env2) \<Longrightarrow>
     runCollectors (pre @ c # post) s merged env = (Inl (''collector error: '' @ err), env2)"
proof (induction pre arbitrary: merged env)
  case Nil
  then show ?case by simp
next
  case (Cons a pre)
  obtain r e where a: "a s env = (r, e)" by (cases "a s env")
  show ?case
  proof (cases r)
    case (Inl x)
    then show ?thesis using Cons.prems a by simp
  next
    case (Inr res)
    then have "runCollectors pre s (mergeResult merged res) e = (Inr m1, env1)"
      using Cons.prems(1) a by simp
    then have "runCollectors (pre @ c # post) s (mergeResult merged res) e =
                 (Inl (''collector error: '' @ err), env2)"
      using Cons.IH Cons.prems(2) by blast
    then show ?thesis using a Inr by simp
  qed
qed

lemma stopCmd_abort:
  assumes "sa_storeError args = None" and "w_session w = Holds s0"
    and "runCollectors (mk (stoppedSession args s0) (sa_cfg args) (sa_prof args))
           (stoppedSession args s0) emptyResult (w_env w) = (Inl err, env2)"
  shows "stopCmd L mk args w = (Some err, w\<lparr>w_env := env2\<rparr>)"
  using assms by (simp add: stopCmd_def store_Load_def Let_def)





lemma example_git_fails:
  "sr_git sr = exampleRunner 0 1 \<Longrightarrow>
     gitC \<lparr>gc_WorkDir = wd, Runner = None\<rparr> s sr = (Inl ''exit status 1'', sr)"
  by (simp add: gitC_def GitCollector_Collect_def exampleRunner_def runErrorText_def itoa.simps)

lemma example_first_two:
  "runCollectors [fileC fc, shellC sc] s emptyResult sr =
     (Inr (mergeResult (mergeResult emptyResult (FileCollector_Collect (sr_fs sr) (sr_now sr) fc s))
             (fst (ShellCollector_Collect sc s (sr_env sr)))),
      sr\<lparr>sr_env := snd (ShellCollector_Collect sc s (sr_env sr))\<rparr>)"
  by (simp add: fileC_def shellC_def split: prod.splits)


text \<open>
  The surroundings are not restored by the abort: in the example the shell collector
  has read and emptied the plugin's command log before the git collector fails.
\<close>

lemma example_read_log:
  "ReadCommandLog (sr_env exampleSurroundings) =
     ([\<lparr>Raw = ''make test'', Timestamp = Unix 1700000100\<rparr>], None)"
  by (simp add: ReadCommandLog_def exampleSurroundings_def exampleEnv_def newline_def
      scanLines_def MaxScanTokenSize_def dropCR_def
      ParseInt_def parseDigits_def isDigit_def digitVal_def)

lemma stopCmd_abort_log_emptied:
  "env_CommandLog (sr_env (w_env exampleWorld)) =
     Some (Inr (''1700000100'' @ [CHR 0x09] @ ''make test'' @ newline))
   \<and> env_CommandLog (sr_env (w_env
         (snd (stopCmd exampleLib handoffCollectors exampleArgs exampleWorld)))) = Some (Inr [])"
proof -
  define s where "s = stoppedSession exampleArgs watchedSession"
  define fc where "fc = \<lparr>fc_WorkDir = WorkDir s, IgnorePatterns = cfg_IgnorePatterns (sa_cfg exampleArgs)\<rparr>"
  define sc where "sc = \<lparr>HistoryPath = ShellHistoryPath (sa_cfg exampleArgs),
      UsePluginLog = (case sa_prof exampleArgs of None \<Rightarrow> False | Some p \<Rightarrow> RecordCommands p)\<rparr>"
  define env1 where "env1 = (w_env exampleWorld)
      \<lparr>sr_env := snd (ShellCollector_Collect sc s (sr_env (w_env exampleWorld)))\<rparr>"
  have a1: "sa_storeError exampleArgs = None" by (simp add: exampleArgs_def)
  have a2: "w_session exampleWorld = Holds watchedSession" by (simp add: exampleWorld_def)
  have a3: "handoffCollectors (stoppedSession exampleArgs watchedSession) (sa_cfg exampleArgs)
              (sa_prof exampleArgs) =
            [fileC fc, shellC sc] @ gitC \<lparr>gc_WorkDir = WorkDir s, Runner = None\<rparr> # [editorC]"
    by (simp add: handoffCollectors_def fc_def sc_def s_def)
  have a4: "runCollectors [fileC fc, shellC sc] (stoppedSession exampleArgs watchedSession)
              emptyResult (w_env exampleWorld) =
            (Inr (mergeResult (mergeResult emptyResult
                    (FileCollector_Collect (sr_fs (w_env exampleWorld)) (sr_now (w_env exampleWorld)) fc s))
                    (fst (ShellCollector_Collect sc s (sr_env (w_env exampleWorld))))), env1)"
    unfolding env1_def s_def [symmetric] by (rule example_first_two)
  have g: "sr_git env1 = exampleRunner 0 1"
    by (simp add: env1_def exampleWorld_def exampleSurroundings_def)
  have a5: "gitC \<lparr>gc_WorkDir = WorkDir s, Runner = None\<rparr> (stoppedSession exampleArgs watchedSession) env1
              = (Inl ''exit status 1'', env1)"
    using g by (rule example_git_fails)
  have run: "runCollectors (handoffCollectors (stoppedSession exampleArgs watchedSession)
               (sa_cfg exampleArgs) (sa_prof exampleArgs))
               (stoppedSession exampleArgs watchedSession) emptyResult (w_env exampleWorld) =
             (Inl (''collector error: '' @ ''exit status 1''), env1)"
    unfolding a3 using a4 a5 by (rule runCollectors_fail)
  have ab: "stopCmd exampleLib handoffCollectors exampleArgs exampleWorld =
              (Some (''collector error: '' @ ''exit status 1''), exampleWorld\<lparr>w_env := env1\<rparr>)"
    using a1 a2 run by (rule stopCmd_abort)
  have u: "UsePluginLog sc" by (simp add: sc_def exampleArgs_def)
  have w: "sr_env (w_env exampleWorld) = sr_env exampleSurroundings"
    by (simp add: exampleWorld_def)
  have t: "snd (ShellCollector_Collect sc s (sr_env (w_env exampleWorld))) =
             TruncateCommandLog (sr_env exampleSurroundings)"
    unfolding w ShellCollector_Collect_def using u
    by (simp add: example_read_log split: prod.splits)
  have 1: "env_CommandLog (sr_env (w_env exampleWorld)) =
     Some (Inr (''1700000100'' @ [CHR 0x09] @ ''make test'' @ newline))"
    by (simp add: exampleWorld_def exampleSurroundings_def)
  have 2: "env_CommandLog (TruncateCommandLog (sr_env exampleSurroundings)) = Some (Inr [])"
    by (simp add: TruncateCommandLog_def exampleSurroundings_def)
  show ?thesis
    unfolding ab using 1 2 by (simp add: env1_def t)
qed

end
